theory Spec2Isabelle
  imports Main "HOL-Library.Sublist" "HOL-Library.Multiset"
begin

section \<open>Text\<close>

text \<open>
  A Python \<open>str\<close> is modelled as an Isabelle \<open>string\<close>; the character with code \<open>n\<close>
  stands for the code point \<open>n\<close>, so the model covers text over the code points 0..255.
  \<open>is_space\<close> is the test behind \<open>str.strip()\<close>, \<open>str.isspace()\<close> and the pattern
  \<open>\s\<close> of a \<open>str\<close> pattern, on that range.
\<close>

definition is_space :: "char \<Rightarrow> bool" where
  "is_space c = (c \<in> set [CHR 0x09, CHR 0x0A, CHR 0x0B, CHR 0x0C, CHR 0x0D, CHR 0x1C,
     CHR 0x1D, CHR 0x1E, CHR 0x1F, CHR 0x20, CHR 0x85, CHR 0xA0])"

definition strip :: "string \<Rightarrow> string" where
  \<comment> \<open>\<open>s.strip()\<close>\<close>
  "strip s = rev (dropWhile is_space (rev (dropWhile is_space s)))"

definition upper_chars :: string where
  "upper_chars = ''ABCDEFGHIJKLMNOPQRSTUVWXYZ'' @
     [CHR 0xC0, CHR 0xC1, CHR 0xC2, CHR 0xC3, CHR 0xC4, CHR 0xC5, CHR 0xC6, CHR 0xC7,
      CHR 0xC8, CHR 0xC9, CHR 0xCA, CHR 0xCB, CHR 0xCC, CHR 0xCD, CHR 0xCE, CHR 0xCF,
      CHR 0xD0, CHR 0xD1, CHR 0xD2, CHR 0xD3, CHR 0xD4, CHR 0xD5, CHR 0xD6,
      CHR 0xD8, CHR 0xD9, CHR 0xDA, CHR 0xDB, CHR 0xDC, CHR 0xDD, CHR 0xDE]"

definition lower_chars :: string where
  "lower_chars = ''abcdefghijklmnopqrstuvwxyz'' @
     [CHR 0xE0, CHR 0xE1, CHR 0xE2, CHR 0xE3, CHR 0xE4, CHR 0xE5, CHR 0xE6, CHR 0xE7,
      CHR 0xE8, CHR 0xE9, CHR 0xEA, CHR 0xEB, CHR 0xEC, CHR 0xED, CHR 0xEE, CHR 0xEF,
      CHR 0xF0, CHR 0xF1, CHR 0xF2, CHR 0xF3, CHR 0xF4, CHR 0xF5, CHR 0xF6,
      CHR 0xF8, CHR 0xF9, CHR 0xFA, CHR 0xFB, CHR 0xFC, CHR 0xFD, CHR 0xFE]"

definition lower_chr :: "char \<Rightarrow> char" where
  "lower_chr c = (case map_of (zip upper_chars lower_chars) c of Some d \<Rightarrow> d | None \<Rightarrow> c)"

definition upper_chr :: "char \<Rightarrow> char" where
  "upper_chr c = (case map_of (zip lower_chars upper_chars) c of Some d \<Rightarrow> d | None \<Rightarrow> c)"

definition lower :: "string \<Rightarrow> string" where
  \<comment> \<open>\<open>s.lower()\<close>\<close>
  "lower s = map lower_chr s"

definition startswith :: "string \<Rightarrow> string \<Rightarrow> bool" where
  \<comment> \<open>\<open>s.startswith(p)\<close>\<close>
  "startswith s p = (take (length p) s = p)"

definition startswith_any :: "string \<Rightarrow> string list \<Rightarrow> bool" where
  \<comment> \<open>\<open>s.startswith((p1, p2, ...))\<close>\<close>
  "startswith_any s ps = list_ex (startswith s) ps"

fun contains :: "string \<Rightarrow> string \<Rightarrow> bool" where
  \<comment> \<open>\<open>p in s\<close> on two strings\<close>
  "contains [] p = (p = [])"
| "contains (c # cs) p = (startswith (c # cs) p \<or> contains cs p)"

section \<open>Regular expressions\<close>

text \<open>
  The patterns of the program use literals, bracket expressions, \<open>\s\<close>, the greedy
  repetitions \<open>*\<close> and \<open>+\<close> and the lazy \<open>*?\<close> of a single-character matcher, \<open>?\<close>,
  and groups. \<open>matches ic r s\<close> lists every way \<open>r\<close> matches a prefix of \<open>s\<close>, as the
  captured groups and the text left over, in the order in which a backtracking matcher
  tries them; the first entry is the match Python's \<open>re\<close> reports. \<open>ic\<close> is the flag
  \<open>re.IGNORECASE\<close>. None of the patterns has an anchor other than a leading \<open>^\<close> under
  \<open>re.match\<close>, a look-around or a back-reference, so a match at a position depends on
  the text from that position on only.
\<close>

datatype item = Ch char | Rng char char | Space | NonSpace

datatype atom = Lit char | Class "item list" | NotClass "item list"

datatype regex =
    Eps
  | One atom
  | Rep0 atom
  | Rep1 atom
  | Lazy0 atom
  | Bounded atom nat nat
  | Opt regex
  | Seq regex regex
  | Alt regex regex
  | Grp regex

definition in_range :: "char \<Rightarrow> char \<Rightarrow> char \<Rightarrow> bool" where
  "in_range a b c = ((of_char a :: nat) \<le> of_char c \<and> (of_char c :: nat) \<le> of_char b)"

fun in_item :: "bool \<Rightarrow> item \<Rightarrow> char \<Rightarrow> bool" where
  "in_item ic (Ch x) c = (if ic then lower_chr c = lower_chr x else c = x)"
| "in_item ic (Rng a b) c =
     (if ic then in_range a b (lower_chr c) \<or> in_range a b (upper_chr (lower_chr c))
      else in_range a b c)"
| "in_item ic Space c = is_space c"
| "in_item ic NonSpace c = (\<not> is_space c)"

fun accepts :: "bool \<Rightarrow> atom \<Rightarrow> char \<Rightarrow> bool" where
  "accepts ic (Lit x) c = in_item ic (Ch x) c"
| "accepts ic (Class its) c = list_ex (\<lambda>i. in_item ic i c) its"
| "accepts ic (NotClass its) c = (\<not> list_ex (\<lambda>i. in_item ic i c) its)"

fun star :: "(char \<Rightarrow> bool) \<Rightarrow> string \<Rightarrow> string list" where
  \<comment> \<open>what a greedy \<open>*\<close> can leave, the longest repetition first\<close>
  "star p [] = [[]]"
| "star p (c # cs) = (if p c then star p cs @ [c # cs] else [c # cs])"

fun lazy_star :: "(char \<Rightarrow> bool) \<Rightarrow> string \<Rightarrow> string list" where
  \<comment> \<open>what a lazy \<open>*?\<close> can leave, the shortest repetition first\<close>
  "lazy_star p [] = [[]]"
| "lazy_star p (c # cs) = (c # cs) # (if p c then lazy_star p cs else [])"

fun upto :: "(char \<Rightarrow> bool) \<Rightarrow> nat \<Rightarrow> string \<Rightarrow> string list" where
  \<comment> \<open>a greedy repetition of at most \<open>n\<close> characters\<close>
  "upto p 0 s = [s]"
| "upto p (Suc n) [] = [[]]"
| "upto p (Suc n) (c # cs) = (if p c then upto p n cs @ [c # cs] else [c # cs])"

fun matches :: "bool \<Rightarrow> regex \<Rightarrow> string \<Rightarrow> (string list \<times> string) list" where
  "matches ic Eps s = [([], s)]"
| "matches ic (One a) s =
     (case s of [] \<Rightarrow> [] | c # cs \<Rightarrow> if accepts ic a c then [([], cs)] else [])"
| "matches ic (Rep0 a) s = map (Pair []) (star (accepts ic a) s)"
| "matches ic (Rep1 a) s =
     (case s of [] \<Rightarrow> []
      | c # cs \<Rightarrow> if accepts ic a c then map (Pair []) (star (accepts ic a) cs) else [])"
| "matches ic (Lazy0 a) s = map (Pair []) (lazy_star (accepts ic a) s)"
| "matches ic (Bounded a lo hi) s =
     map (Pair []) (filter (\<lambda>s'. lo \<le> length s - length s') (upto (accepts ic a) hi s))"
| "matches ic (Opt r) s = matches ic r s @ [([], s)]"
| "matches ic (Seq r1 r2) s =
     concat (map (\<lambda>(g1, s1). map (\<lambda>(g2, s2). (g1 @ g2, s2)) (matches ic r2 s1))
       (matches ic r1 s))"
| "matches ic (Alt r1 r2) s = matches ic r1 s @ matches ic r2 s"
| "matches ic (Grp r) s =
     map (\<lambda>(g, s'). (take (length s - length s') s # g, s')) (matches ic r s)"

definition lit :: "string \<Rightarrow> regex" where
  \<comment> \<open>a run of literal characters\<close>
  "lit s = foldr (\<lambda>c r. Seq (One (Lit c)) r) s Eps"

definition cat :: "regex list \<Rightarrow> regex" where
  "cat rs = foldr Seq rs Eps"

text \<open>
  A match object is the matched text (group 0), the groups 1, 2, ... and the text after
  the match. \<open>group m k\<close> is \<open>m.group(k)\<close>; every call of the program names a group its
  pattern has.
\<close>

type_synonym match = "string \<times> string list \<times> string"

definition group :: "match \<Rightarrow> nat \<Rightarrow> string" where
  "group m k = (case m of (w, gs, _) \<Rightarrow>
     if k = 0 then w else if k \<le> length gs then gs ! (k - 1) else [])"

definition match_here :: "bool \<Rightarrow> regex \<Rightarrow> string \<Rightarrow> match option" where
  \<comment> \<open>\<open>re.match\<close>: the pattern at the start of \<open>s\<close>\<close>
  "match_here ic r s = (case matches ic r s of [] \<Rightarrow> None
     | (gs, s') # _ \<Rightarrow> Some (take (length s - length s') s, gs, s'))"

fun search :: "bool \<Rightarrow> regex \<Rightarrow> string \<Rightarrow> match option" where
  \<comment> \<open>\<open>re.search\<close>: the match at the first position that has one\<close>
  "search ic r [] = match_here ic r []"
| "search ic r (c # cs) =
     (case match_here ic r (c # cs) of Some m \<Rightarrow> Some m | None \<Rightarrow> search ic r cs)"

text \<open>
  \<open>re.finditer\<close> and \<open>re.sub\<close> scan from left to right and resume after each match.
  After an empty match they step over one character; no pattern of the program matches
  the empty string.
\<close>

function finditer :: "bool \<Rightarrow> regex \<Rightarrow> string \<Rightarrow> match list" where
  "finditer ic r s =
     (case match_here ic r s of
        Some m \<Rightarrow> m # (if fst m = [] then (case s of [] \<Rightarrow> [] | c # cs \<Rightarrow> finditer ic r cs)
                      else finditer ic r (drop (length (fst m)) s))
      | None \<Rightarrow> (case s of [] \<Rightarrow> [] | c # cs \<Rightarrow> finditer ic r cs))"
  by pat_completeness auto
termination
  by (relation "measure (\<lambda>(ic, r, s). length s)")
     (auto simp: match_here_def split: list.splits)

definition findall :: "bool \<Rightarrow> regex \<Rightarrow> string \<Rightarrow> string list" where
  \<comment> \<open>\<open>re.findall\<close> for a pattern with one group\<close>
  "findall ic r s = map (\<lambda>m. group m 1) (finditer ic r s)"

function sub :: "bool \<Rightarrow> regex \<Rightarrow> (match \<Rightarrow> string) \<Rightarrow> string \<Rightarrow> string" where
  \<comment> \<open>\<open>re.sub(pattern, repl, s)\<close>; a constant replacement is \<open>\<lambda>_. repl\<close>\<close>
  "sub ic r f s =
     (case match_here ic r s of
        Some m \<Rightarrow> f m @ (if fst m = [] then (case s of [] \<Rightarrow> [] | c # cs \<Rightarrow> c # sub ic r f cs)
                        else sub ic r f (drop (length (fst m)) s))
      | None \<Rightarrow> (case s of [] \<Rightarrow> [] | c # cs \<Rightarrow> c # sub ic r f cs))"
  by pat_completeness auto
termination
  by (relation "measure (\<lambda>(ic, r, f, s). length s)")
     (auto simp: match_here_def split: list.splits)

declare finditer.simps [simp del]
declare sub.simps [simp del]

section \<open>The extractor (tools/build_seo_manifest.py)\<close>

subsection \<open>html.unescape\<close>

text \<open>
  \<open>html.unescape\<close> belongs to the standard library. It returns a text without \<open>&\<close>
  unchanged and otherwise replaces every character reference the pattern \<open>charref\<close>
  finds. The model follows the library's \<open>_replace_charref\<close> on the code points 0..255.
  The library's table \<open>html.entities.html5\<close> has 2231 names: \<open>html5\<close> holds the 265
  entries whose replacement lies in the code points 0..255, and \<open>html5_wide\<close> the names
  of the 1966 others. A reference whose replacement lies beyond code point 255 stays as
  it is written. \<open>int\<close> accepts a decimal reference of at most 4300 digits (the
  interpreter's limit on the conversion, beyond which it raises \<open>ValueError\<close>);
  \<open>unescape_raises\<close> tells the texts on which it does not.
\<close>

definition charref :: regex where
  \<comment> \<open>\<open>&(#[0-9]+;?|#[xX][0-9a-fA-F]+;?|[^\t\n\f <&#;]{1,32};?)\<close>\<close>
  "charref = cat [lit ''&'',
     Grp (Alt (cat [lit ''#'', Rep1 (Class [Rng CHR ''0'' CHR ''9'']), Opt (lit '';'')])
         (Alt (cat [lit ''#'', One (Class [Ch CHR ''x'', Ch CHR ''X'']),
                    Rep1 (Class [Rng CHR ''0'' CHR ''9'', Rng CHR ''a'' CHR ''f'',
                                 Rng CHR ''A'' CHR ''F'']), Opt (lit '';'')])
              (cat [Bounded (NotClass [Ch CHR 0x09, Ch CHR 0x0A, Ch CHR 0x0C, Ch CHR '' '',
                                       Ch CHR ''<'', Ch CHR ''&'', Ch CHR ''#'', Ch CHR '';'']) 1 32,
                    Opt (lit '';'')])))]"

definition html5 :: "(string \<times> string) list" where
  "html5 = [
     (''AElig'', [CHR 0xC6]), (''AElig;'', [CHR 0xC6]), (''AMP'', [CHR 0x26]),
     (''AMP;'', [CHR 0x26]), (''Aacute'', [CHR 0xC1]), (''Aacute;'', [CHR 0xC1]),
     (''Acirc'', [CHR 0xC2]), (''Acirc;'', [CHR 0xC2]), (''Agrave'', [CHR 0xC0]),
     (''Agrave;'', [CHR 0xC0]), (''Aring'', [CHR 0xC5]), (''Aring;'', [CHR 0xC5]),
     (''Atilde'', [CHR 0xC3]), (''Atilde;'', [CHR 0xC3]), (''Auml'', [CHR 0xC4]),
     (''Auml;'', [CHR 0xC4]), (''COPY'', [CHR 0xA9]), (''COPY;'', [CHR 0xA9]),
     (''Ccedil'', [CHR 0xC7]), (''Ccedil;'', [CHR 0xC7]), (''Cedilla;'', [CHR 0xB8]),
     (''CenterDot;'', [CHR 0xB7]), (''DiacriticalAcute;'', [CHR 0xB4]),
     (''DiacriticalGrave;'', [CHR 0x60]), (''Dot;'', [CHR 0xA8]), (''DoubleDot;'', [CHR 0xA8]),
     (''ETH'', [CHR 0xD0]), (''ETH;'', [CHR 0xD0]), (''Eacute'', [CHR 0xC9]),
     (''Eacute;'', [CHR 0xC9]), (''Ecirc'', [CHR 0xCA]), (''Ecirc;'', [CHR 0xCA]),
     (''Egrave'', [CHR 0xC8]), (''Egrave;'', [CHR 0xC8]), (''Euml'', [CHR 0xCB]),
     (''Euml;'', [CHR 0xCB]), (''GT'', [CHR 0x3E]), (''GT;'', [CHR 0x3E]),
     (''Hat;'', [CHR 0x5E]), (''Iacute'', [CHR 0xCD]), (''Iacute;'', [CHR 0xCD]),
     (''Icirc'', [CHR 0xCE]), (''Icirc;'', [CHR 0xCE]), (''Igrave'', [CHR 0xCC]),
     (''Igrave;'', [CHR 0xCC]), (''Iuml'', [CHR 0xCF]), (''Iuml;'', [CHR 0xCF]),
     (''LT'', [CHR 0x3C]), (''LT;'', [CHR 0x3C]), (''NewLine;'', [CHR 0x0A]),
     (''NonBreakingSpace;'', [CHR 0xA0]), (''Ntilde'', [CHR 0xD1]), (''Ntilde;'', [CHR 0xD1]),
     (''Oacute'', [CHR 0xD3]), (''Oacute;'', [CHR 0xD3]), (''Ocirc'', [CHR 0xD4]),
     (''Ocirc;'', [CHR 0xD4]), (''Ograve'', [CHR 0xD2]), (''Ograve;'', [CHR 0xD2]),
     (''Oslash'', [CHR 0xD8]), (''Oslash;'', [CHR 0xD8]), (''Otilde'', [CHR 0xD5]),
     (''Otilde;'', [CHR 0xD5]), (''Ouml'', [CHR 0xD6]), (''Ouml;'', [CHR 0xD6]),
     (''PlusMinus;'', [CHR 0xB1]), (''QUOT'', [CHR 0x22]), (''QUOT;'', [CHR 0x22]),
     (''REG'', [CHR 0xAE]), (''REG;'', [CHR 0xAE]), (''THORN'', [CHR 0xDE]),
     (''THORN;'', [CHR 0xDE]), (''Tab;'', [CHR 0x09]), (''Uacute'', [CHR 0xDA]),
     (''Uacute;'', [CHR 0xDA]), (''Ucirc'', [CHR 0xDB]), (''Ucirc;'', [CHR 0xDB]),
     (''Ugrave'', [CHR 0xD9]), (''Ugrave;'', [CHR 0xD9]), (''UnderBar;'', [CHR 0x5F]),
     (''Uuml'', [CHR 0xDC]), (''Uuml;'', [CHR 0xDC]), (''VerticalLine;'', [CHR 0x7C]),
     (''Yacute'', [CHR 0xDD]), (''Yacute;'', [CHR 0xDD]), (''aacute'', [CHR 0xE1]),
     (''aacute;'', [CHR 0xE1]), (''acirc'', [CHR 0xE2]), (''acirc;'', [CHR 0xE2]),
     (''acute'', [CHR 0xB4]), (''acute;'', [CHR 0xB4]), (''aelig'', [CHR 0xE6]),
     (''aelig;'', [CHR 0xE6]), (''agrave'', [CHR 0xE0]), (''agrave;'', [CHR 0xE0]),
     (''amp'', [CHR 0x26]), (''amp;'', [CHR 0x26]), (''angst;'', [CHR 0xC5]),
     (''apos;'', [CHR 0x27]), (''aring'', [CHR 0xE5]), (''aring;'', [CHR 0xE5]),
     (''ast;'', [CHR 0x2A]), (''atilde'', [CHR 0xE3]), (''atilde;'', [CHR 0xE3]),
     (''auml'', [CHR 0xE4]), (''auml;'', [CHR 0xE4]), (''brvbar'', [CHR 0xA6]),
     (''brvbar;'', [CHR 0xA6]), (''bsol;'', [CHR 0x5C]), (''ccedil'', [CHR 0xE7]),
     (''ccedil;'', [CHR 0xE7]), (''cedil'', [CHR 0xB8]), (''cedil;'', [CHR 0xB8]),
     (''cent'', [CHR 0xA2]), (''cent;'', [CHR 0xA2]), (''centerdot;'', [CHR 0xB7]),
     (''circledR;'', [CHR 0xAE]), (''colon;'', [CHR 0x3A]), (''comma;'', [CHR 0x2C]),
     (''commat;'', [CHR 0x40]), (''copy'', [CHR 0xA9]), (''copy;'', [CHR 0xA9]),
     (''curren'', [CHR 0xA4]), (''curren;'', [CHR 0xA4]), (''deg'', [CHR 0xB0]),
     (''deg;'', [CHR 0xB0]), (''die;'', [CHR 0xA8]), (''div;'', [CHR 0xF7]),
     (''divide'', [CHR 0xF7]), (''divide;'', [CHR 0xF7]), (''dollar;'', [CHR 0x24]),
     (''eacute'', [CHR 0xE9]), (''eacute;'', [CHR 0xE9]), (''ecirc'', [CHR 0xEA]),
     (''ecirc;'', [CHR 0xEA]), (''egrave'', [CHR 0xE8]), (''egrave;'', [CHR 0xE8]),
     (''equals;'', [CHR 0x3D]), (''eth'', [CHR 0xF0]), (''eth;'', [CHR 0xF0]),
     (''euml'', [CHR 0xEB]), (''euml;'', [CHR 0xEB]), (''excl;'', [CHR 0x21]),
     (''fjlig;'', ''fj''), (''frac12'', [CHR 0xBD]), (''frac12;'', [CHR 0xBD]),
     (''frac14'', [CHR 0xBC]), (''frac14;'', [CHR 0xBC]), (''frac34'', [CHR 0xBE]),
     (''frac34;'', [CHR 0xBE]), (''grave;'', [CHR 0x60]), (''gt'', [CHR 0x3E]),
     (''gt;'', [CHR 0x3E]), (''half;'', [CHR 0xBD]), (''iacute'', [CHR 0xED]),
     (''iacute;'', [CHR 0xED]), (''icirc'', [CHR 0xEE]), (''icirc;'', [CHR 0xEE]),
     (''iexcl'', [CHR 0xA1]), (''iexcl;'', [CHR 0xA1]), (''igrave'', [CHR 0xEC]),
     (''igrave;'', [CHR 0xEC]), (''iquest'', [CHR 0xBF]), (''iquest;'', [CHR 0xBF]),
     (''iuml'', [CHR 0xEF]), (''iuml;'', [CHR 0xEF]), (''laquo'', [CHR 0xAB]),
     (''laquo;'', [CHR 0xAB]), (''lbrace;'', [CHR 0x7B]), (''lbrack;'', [CHR 0x5B]),
     (''lcub;'', [CHR 0x7B]), (''lowbar;'', [CHR 0x5F]), (''lpar;'', [CHR 0x28]),
     (''lsqb;'', [CHR 0x5B]), (''lt'', [CHR 0x3C]), (''lt;'', [CHR 0x3C]),
     (''macr'', [CHR 0xAF]), (''macr;'', [CHR 0xAF]), (''micro'', [CHR 0xB5]),
     (''micro;'', [CHR 0xB5]), (''midast;'', [CHR 0x2A]), (''middot'', [CHR 0xB7]),
     (''middot;'', [CHR 0xB7]), (''nbsp'', [CHR 0xA0]), (''nbsp;'', [CHR 0xA0]),
     (''not'', [CHR 0xAC]), (''not;'', [CHR 0xAC]), (''ntilde'', [CHR 0xF1]),
     (''ntilde;'', [CHR 0xF1]), (''num;'', [CHR 0x23]), (''oacute'', [CHR 0xF3]),
     (''oacute;'', [CHR 0xF3]), (''ocirc'', [CHR 0xF4]), (''ocirc;'', [CHR 0xF4]),
     (''ograve'', [CHR 0xF2]), (''ograve;'', [CHR 0xF2]), (''ordf'', [CHR 0xAA]),
     (''ordf;'', [CHR 0xAA]), (''ordm'', [CHR 0xBA]), (''ordm;'', [CHR 0xBA]),
     (''oslash'', [CHR 0xF8]), (''oslash;'', [CHR 0xF8]), (''otilde'', [CHR 0xF5]),
     (''otilde;'', [CHR 0xF5]), (''ouml'', [CHR 0xF6]), (''ouml;'', [CHR 0xF6]),
     (''para'', [CHR 0xB6]), (''para;'', [CHR 0xB6]), (''percnt;'', [CHR 0x25]),
     (''period;'', [CHR 0x2E]), (''plus;'', [CHR 0x2B]), (''plusmn'', [CHR 0xB1]),
     (''plusmn;'', [CHR 0xB1]), (''pm;'', [CHR 0xB1]), (''pound'', [CHR 0xA3]),
     (''pound;'', [CHR 0xA3]), (''quest;'', [CHR 0x3F]), (''quot'', [CHR 0x22]),
     (''quot;'', [CHR 0x22]), (''raquo'', [CHR 0xBB]), (''raquo;'', [CHR 0xBB]),
     (''rbrace;'', [CHR 0x7D]), (''rbrack;'', [CHR 0x5D]), (''rcub;'', [CHR 0x7D]),
     (''reg'', [CHR 0xAE]), (''reg;'', [CHR 0xAE]), (''rpar;'', [CHR 0x29]),
     (''rsqb;'', [CHR 0x5D]), (''sect'', [CHR 0xA7]), (''sect;'', [CHR 0xA7]),
     (''semi;'', '';''), (''shy'', [CHR 0xAD]), (''shy;'', [CHR 0xAD]), (''sol;'', [CHR 0x2F]),
     (''strns;'', [CHR 0xAF]), (''sup1'', [CHR 0xB9]), (''sup1;'', [CHR 0xB9]),
     (''sup2'', [CHR 0xB2]), (''sup2;'', [CHR 0xB2]), (''sup3'', [CHR 0xB3]),
     (''sup3;'', [CHR 0xB3]), (''szlig'', [CHR 0xDF]), (''szlig;'', [CHR 0xDF]),
     (''thorn'', [CHR 0xFE]), (''thorn;'', [CHR 0xFE]), (''times'', [CHR 0xD7]),
     (''times;'', [CHR 0xD7]), (''uacute'', [CHR 0xFA]), (''uacute;'', [CHR 0xFA]),
     (''ucirc'', [CHR 0xFB]), (''ucirc;'', [CHR 0xFB]), (''ugrave'', [CHR 0xF9]),
     (''ugrave;'', [CHR 0xF9]), (''uml'', [CHR 0xA8]), (''uml;'', [CHR 0xA8]),
     (''uuml'', [CHR 0xFC]), (''uuml;'', [CHR 0xFC]), (''verbar;'', [CHR 0x7C]),
     (''vert;'', [CHR 0x7C]), (''yacute'', [CHR 0xFD]), (''yacute;'', [CHR 0xFD]),
     (''yen'', [CHR 0xA5]), (''yen;'', [CHR 0xA5]), (''yuml'', [CHR 0xFF]),
     (''yuml;'', [CHR 0xFF])]"

definition html5_wide :: "string list" where
  "html5_wide = [
     ''Abreve;'', ''Acy;'', ''Afr;'', ''Alpha;'', ''Amacr;'', ''And;'', ''Aogon;'', ''Aopf;'',
     ''ApplyFunction;'', ''Ascr;'', ''Assign;'', ''Backslash;'', ''Barv;'', ''Barwed;'',
     ''Bcy;'', ''Because;'', ''Bernoullis;'', ''Beta;'', ''Bfr;'', ''Bopf;'', ''Breve;'',
     ''Bscr;'', ''Bumpeq;'', ''CHcy;'', ''Cacute;'', ''Cap;'', ''CapitalDifferentialD;'',
     ''Cayleys;'', ''Ccaron;'', ''Ccirc;'', ''Cconint;'', ''Cdot;'', ''Cfr;'', ''Chi;'',
     ''CircleDot;'', ''CircleMinus;'', ''CirclePlus;'', ''CircleTimes;'',
     ''ClockwiseContourIntegral;'', ''CloseCurlyDoubleQuote;'', ''CloseCurlyQuote;'',
     ''Colon;'', ''Colone;'', ''Congruent;'', ''Conint;'', ''ContourIntegral;'', ''Copf;'',
     ''Coproduct;'', ''CounterClockwiseContourIntegral;'', ''Cross;'', ''Cscr;'', ''Cup;'',
     ''CupCap;'', ''DD;'', ''DDotrahd;'', ''DJcy;'', ''DScy;'', ''DZcy;'', ''Dagger;'',
     ''Darr;'', ''Dashv;'', ''Dcaron;'', ''Dcy;'', ''Del;'', ''Delta;'', ''Dfr;'',
     ''DiacriticalDot;'', ''DiacriticalDoubleAcute;'', ''DiacriticalTilde;'', ''Diamond;'',
     ''DifferentialD;'', ''Dopf;'', ''DotDot;'', ''DotEqual;'', ''DoubleContourIntegral;'',
     ''DoubleDownArrow;'', ''DoubleLeftArrow;'', ''DoubleLeftRightArrow;'', ''DoubleLeftTee;'',
     ''DoubleLongLeftArrow;'', ''DoubleLongLeftRightArrow;'', ''DoubleLongRightArrow;'',
     ''DoubleRightArrow;'', ''DoubleRightTee;'', ''DoubleUpArrow;'', ''DoubleUpDownArrow;'',
     ''DoubleVerticalBar;'', ''DownArrow;'', ''DownArrowBar;'', ''DownArrowUpArrow;'',
     ''DownBreve;'', ''DownLeftRightVector;'', ''DownLeftTeeVector;'', ''DownLeftVector;'',
     ''DownLeftVectorBar;'', ''DownRightTeeVector;'', ''DownRightVector;'',
     ''DownRightVectorBar;'', ''DownTee;'', ''DownTeeArrow;'', ''Downarrow;'', ''Dscr;'',
     ''Dstrok;'', ''ENG;'', ''Ecaron;'', ''Ecy;'', ''Edot;'', ''Efr;'', ''Element;'',
     ''Emacr;'', ''EmptySmallSquare;'', ''EmptyVerySmallSquare;'', ''Eogon;'', ''Eopf;'',
     ''Epsilon;'', ''Equal;'', ''EqualTilde;'', ''Equilibrium;'', ''Escr;'', ''Esim;'',
     ''Eta;'', ''Exists;'', ''ExponentialE;'', ''Fcy;'', ''Ffr;'', ''FilledSmallSquare;'',
     ''FilledVerySmallSquare;'', ''Fopf;'', ''ForAll;'', ''Fouriertrf;'', ''Fscr;'', ''GJcy;'',
     ''Gamma;'', ''Gammad;'', ''Gbreve;'', ''Gcedil;'', ''Gcirc;'', ''Gcy;'', ''Gdot;'',
     ''Gfr;'', ''Gg;'', ''Gopf;'', ''GreaterEqual;'', ''GreaterEqualLess;'',
     ''GreaterFullEqual;'', ''GreaterGreater;'', ''GreaterLess;'', ''GreaterSlantEqual;'',
     ''GreaterTilde;'', ''Gscr;'', ''Gt;'', ''HARDcy;'', ''Hacek;'', ''Hcirc;'', ''Hfr;'',
     ''HilbertSpace;'', ''Hopf;'', ''HorizontalLine;'', ''Hscr;'', ''Hstrok;'',
     ''HumpDownHump;'', ''HumpEqual;'', ''IEcy;'', ''IJlig;'', ''IOcy;'', ''Icy;'', ''Idot;'',
     ''Ifr;'', ''Im;'', ''Imacr;'', ''ImaginaryI;'', ''Implies;'', ''Int;'', ''Integral;'',
     ''Intersection;'', ''InvisibleComma;'', ''InvisibleTimes;'', ''Iogon;'', ''Iopf;'',
     ''Iota;'', ''Iscr;'', ''Itilde;'', ''Iukcy;'', ''Jcirc;'', ''Jcy;'', ''Jfr;'', ''Jopf;'',
     ''Jscr;'', ''Jsercy;'', ''Jukcy;'', ''KHcy;'', ''KJcy;'', ''Kappa;'', ''Kcedil;'',
     ''Kcy;'', ''Kfr;'', ''Kopf;'', ''Kscr;'', ''LJcy;'', ''Lacute;'', ''Lambda;'', ''Lang;'',
     ''Laplacetrf;'', ''Larr;'', ''Lcaron;'', ''Lcedil;'', ''Lcy;'', ''LeftAngleBracket;'',
     ''LeftArrow;'', ''LeftArrowBar;'', ''LeftArrowRightArrow;'', ''LeftCeiling;'',
     ''LeftDoubleBracket;'', ''LeftDownTeeVector;'', ''LeftDownVector;'',
     ''LeftDownVectorBar;'', ''LeftFloor;'', ''LeftRightArrow;'', ''LeftRightVector;'',
     ''LeftTee;'', ''LeftTeeArrow;'', ''LeftTeeVector;'', ''LeftTriangle;'',
     ''LeftTriangleBar;'', ''LeftTriangleEqual;'', ''LeftUpDownVector;'', ''LeftUpTeeVector;'',
     ''LeftUpVector;'', ''LeftUpVectorBar;'', ''LeftVector;'', ''LeftVectorBar;'',
     ''Leftarrow;'', ''Leftrightarrow;'', ''LessEqualGreater;'', ''LessFullEqual;'',
     ''LessGreater;'', ''LessLess;'', ''LessSlantEqual;'', ''LessTilde;'', ''Lfr;'', ''Ll;'',
     ''Lleftarrow;'', ''Lmidot;'', ''LongLeftArrow;'', ''LongLeftRightArrow;'',
     ''LongRightArrow;'', ''Longleftarrow;'', ''Longleftrightarrow;'', ''Longrightarrow;'',
     ''Lopf;'', ''LowerLeftArrow;'', ''LowerRightArrow;'', ''Lscr;'', ''Lsh;'', ''Lstrok;'',
     ''Lt;'', ''Map;'', ''Mcy;'', ''MediumSpace;'', ''Mellintrf;'', ''Mfr;'', ''MinusPlus;'',
     ''Mopf;'', ''Mscr;'', ''Mu;'', ''NJcy;'', ''Nacute;'', ''Ncaron;'', ''Ncedil;'', ''Ncy;'',
     ''NegativeMediumSpace;'', ''NegativeThickSpace;'', ''NegativeThinSpace;'',
     ''NegativeVeryThinSpace;'', ''NestedGreaterGreater;'', ''NestedLessLess;'', ''Nfr;'',
     ''NoBreak;'', ''Nopf;'', ''Not;'', ''NotCongruent;'', ''NotCupCap;'',
     ''NotDoubleVerticalBar;'', ''NotElement;'', ''NotEqual;'', ''NotEqualTilde;'',
     ''NotExists;'', ''NotGreater;'', ''NotGreaterEqual;'', ''NotGreaterFullEqual;'',
     ''NotGreaterGreater;'', ''NotGreaterLess;'', ''NotGreaterSlantEqual;'',
     ''NotGreaterTilde;'', ''NotHumpDownHump;'', ''NotHumpEqual;'', ''NotLeftTriangle;'',
     ''NotLeftTriangleBar;'', ''NotLeftTriangleEqual;'', ''NotLess;'', ''NotLessEqual;'',
     ''NotLessGreater;'', ''NotLessLess;'', ''NotLessSlantEqual;'', ''NotLessTilde;'',
     ''NotNestedGreaterGreater;'', ''NotNestedLessLess;'', ''NotPrecedes;'',
     ''NotPrecedesEqual;'', ''NotPrecedesSlantEqual;'', ''NotReverseElement;'',
     ''NotRightTriangle;'', ''NotRightTriangleBar;'', ''NotRightTriangleEqual;'',
     ''NotSquareSubset;'', ''NotSquareSubsetEqual;'', ''NotSquareSuperset;'',
     ''NotSquareSupersetEqual;'', ''NotSubset;'', ''NotSubsetEqual;'', ''NotSucceeds;'',
     ''NotSucceedsEqual;'', ''NotSucceedsSlantEqual;'', ''NotSucceedsTilde;'',
     ''NotSuperset;'', ''NotSupersetEqual;'', ''NotTilde;'', ''NotTildeEqual;'',
     ''NotTildeFullEqual;'', ''NotTildeTilde;'', ''NotVerticalBar;'', ''Nscr;'', ''Nu;'',
     ''OElig;'', ''Ocy;'', ''Odblac;'', ''Ofr;'', ''Omacr;'', ''Omega;'', ''Omicron;'',
     ''Oopf;'', ''OpenCurlyDoubleQuote;'', ''OpenCurlyQuote;'', ''Or;'', ''Oscr;'',
     ''Otimes;'', ''OverBar;'', ''OverBrace;'', ''OverBracket;'', ''OverParenthesis;'',
     ''PartialD;'', ''Pcy;'', ''Pfr;'', ''Phi;'', ''Pi;'', ''Poincareplane;'', ''Popf;'',
     ''Pr;'', ''Precedes;'', ''PrecedesEqual;'', ''PrecedesSlantEqual;'', ''PrecedesTilde;'',
     ''Prime;'', ''Product;'', ''Proportion;'', ''Proportional;'', ''Pscr;'', ''Psi;'',
     ''Qfr;'', ''Qopf;'', ''Qscr;'', ''RBarr;'', ''Racute;'', ''Rang;'', ''Rarr;'',
     ''Rarrtl;'', ''Rcaron;'', ''Rcedil;'', ''Rcy;'', ''Re;'', ''ReverseElement;'',
     ''ReverseEquilibrium;'', ''ReverseUpEquilibrium;'', ''Rfr;'', ''Rho;'',
     ''RightAngleBracket;'', ''RightArrow;'', ''RightArrowBar;'', ''RightArrowLeftArrow;'',
     ''RightCeiling;'', ''RightDoubleBracket;'', ''RightDownTeeVector;'', ''RightDownVector;'',
     ''RightDownVectorBar;'', ''RightFloor;'', ''RightTee;'', ''RightTeeArrow;'',
     ''RightTeeVector;'', ''RightTriangle;'', ''RightTriangleBar;'', ''RightTriangleEqual;'',
     ''RightUpDownVector;'', ''RightUpTeeVector;'', ''RightUpVector;'', ''RightUpVectorBar;'',
     ''RightVector;'', ''RightVectorBar;'', ''Rightarrow;'', ''Ropf;'', ''RoundImplies;'',
     ''Rrightarrow;'', ''Rscr;'', ''Rsh;'', ''RuleDelayed;'', ''SHCHcy;'', ''SHcy;'',
     ''SOFTcy;'', ''Sacute;'', ''Sc;'', ''Scaron;'', ''Scedil;'', ''Scirc;'', ''Scy;'',
     ''Sfr;'', ''ShortDownArrow;'', ''ShortLeftArrow;'', ''ShortRightArrow;'',
     ''ShortUpArrow;'', ''Sigma;'', ''SmallCircle;'', ''Sopf;'', ''Sqrt;'', ''Square;'',
     ''SquareIntersection;'', ''SquareSubset;'', ''SquareSubsetEqual;'', ''SquareSuperset;'',
     ''SquareSupersetEqual;'', ''SquareUnion;'', ''Sscr;'', ''Star;'', ''Sub;'', ''Subset;'',
     ''SubsetEqual;'', ''Succeeds;'', ''SucceedsEqual;'', ''SucceedsSlantEqual;'',
     ''SucceedsTilde;'', ''SuchThat;'', ''Sum;'', ''Sup;'', ''Superset;'', ''SupersetEqual;'',
     ''Supset;'', ''TRADE;'', ''TSHcy;'', ''TScy;'', ''Tau;'', ''Tcaron;'', ''Tcedil;'',
     ''Tcy;'', ''Tfr;'', ''Therefore;'', ''Theta;'', ''ThickSpace;'', ''ThinSpace;'',
     ''Tilde;'', ''TildeEqual;'', ''TildeFullEqual;'', ''TildeTilde;'', ''Topf;'',
     ''TripleDot;'', ''Tscr;'', ''Tstrok;'', ''Uarr;'', ''Uarrocir;'', ''Ubrcy;'', ''Ubreve;'',
     ''Ucy;'', ''Udblac;'', ''Ufr;'', ''Umacr;'', ''UnderBrace;'', ''UnderBracket;'',
     ''UnderParenthesis;'', ''Union;'', ''UnionPlus;'', ''Uogon;'', ''Uopf;'', ''UpArrow;'',
     ''UpArrowBar;'', ''UpArrowDownArrow;'', ''UpDownArrow;'', ''UpEquilibrium;'', ''UpTee;'',
     ''UpTeeArrow;'', ''Uparrow;'', ''Updownarrow;'', ''UpperLeftArrow;'',
     ''UpperRightArrow;'', ''Upsi;'', ''Upsilon;'', ''Uring;'', ''Uscr;'', ''Utilde;'',
     ''VDash;'', ''Vbar;'', ''Vcy;'', ''Vdash;'', ''Vdashl;'', ''Vee;'', ''Verbar;'',
     ''Vert;'', ''VerticalBar;'', ''VerticalSeparator;'', ''VerticalTilde;'',
     ''VeryThinSpace;'', ''Vfr;'', ''Vopf;'', ''Vscr;'', ''Vvdash;'', ''Wcirc;'', ''Wedge;'',
     ''Wfr;'', ''Wopf;'', ''Wscr;'', ''Xfr;'', ''Xi;'', ''Xopf;'', ''Xscr;'', ''YAcy;'',
     ''YIcy;'', ''YUcy;'', ''Ycirc;'', ''Ycy;'', ''Yfr;'', ''Yopf;'', ''Yscr;'', ''Yuml;'',
     ''ZHcy;'', ''Zacute;'', ''Zcaron;'', ''Zcy;'', ''Zdot;'', ''ZeroWidthSpace;'', ''Zeta;'',
     ''Zfr;'', ''Zopf;'', ''Zscr;'', ''abreve;'', ''ac;'', ''acE;'', ''acd;'', ''acy;'',
     ''af;'', ''afr;'', ''alefsym;'', ''aleph;'', ''alpha;'', ''amacr;'', ''amalg;'', ''and;'',
     ''andand;'', ''andd;'', ''andslope;'', ''andv;'', ''ang;'', ''ange;'', ''angle;'',
     ''angmsd;'', ''angmsdaa;'', ''angmsdab;'', ''angmsdac;'', ''angmsdad;'', ''angmsdae;'',
     ''angmsdaf;'', ''angmsdag;'', ''angmsdah;'', ''angrt;'', ''angrtvb;'', ''angrtvbd;'',
     ''angsph;'', ''angzarr;'', ''aogon;'', ''aopf;'', ''ap;'', ''apE;'', ''apacir;'',
     ''ape;'', ''apid;'', ''approx;'', ''approxeq;'', ''ascr;'', ''asymp;'', ''asympeq;'',
     ''awconint;'', ''awint;'', ''bNot;'', ''backcong;'', ''backepsilon;'', ''backprime;'',
     ''backsim;'', ''backsimeq;'', ''barvee;'', ''barwed;'', ''barwedge;'', ''bbrk;'',
     ''bbrktbrk;'', ''bcong;'', ''bcy;'', ''bdquo;'', ''becaus;'', ''because;'', ''bemptyv;'',
     ''bepsi;'', ''bernou;'', ''beta;'', ''beth;'', ''between;'', ''bfr;'', ''bigcap;'',
     ''bigcirc;'', ''bigcup;'', ''bigodot;'', ''bigoplus;'', ''bigotimes;'', ''bigsqcup;'',
     ''bigstar;'', ''bigtriangledown;'', ''bigtriangleup;'', ''biguplus;'', ''bigvee;'',
     ''bigwedge;'', ''bkarow;'', ''blacklozenge;'', ''blacksquare;'', ''blacktriangle;'',
     ''blacktriangledown;'', ''blacktriangleleft;'', ''blacktriangleright;'', ''blank;'',
     ''blk12;'', ''blk14;'', ''blk34;'', ''block;'', ''bne;'', ''bnequiv;'', ''bnot;'',
     ''bopf;'', ''bot;'', ''bottom;'', ''bowtie;'', ''boxDL;'', ''boxDR;'', ''boxDl;'',
     ''boxDr;'', ''boxH;'', ''boxHD;'', ''boxHU;'', ''boxHd;'', ''boxHu;'', ''boxUL;'',
     ''boxUR;'', ''boxUl;'', ''boxUr;'', ''boxV;'', ''boxVH;'', ''boxVL;'', ''boxVR;'',
     ''boxVh;'', ''boxVl;'', ''boxVr;'', ''boxbox;'', ''boxdL;'', ''boxdR;'', ''boxdl;'',
     ''boxdr;'', ''boxh;'', ''boxhD;'', ''boxhU;'', ''boxhd;'', ''boxhu;'', ''boxminus;'',
     ''boxplus;'', ''boxtimes;'', ''boxuL;'', ''boxuR;'', ''boxul;'', ''boxur;'', ''boxv;'',
     ''boxvH;'', ''boxvL;'', ''boxvR;'', ''boxvh;'', ''boxvl;'', ''boxvr;'', ''bprime;'',
     ''breve;'', ''bscr;'', ''bsemi;'', ''bsim;'', ''bsime;'', ''bsolb;'', ''bsolhsub;'',
     ''bull;'', ''bullet;'', ''bump;'', ''bumpE;'', ''bumpe;'', ''bumpeq;'', ''cacute;'',
     ''cap;'', ''capand;'', ''capbrcup;'', ''capcap;'', ''capcup;'', ''capdot;'', ''caps;'',
     ''caret;'', ''caron;'', ''ccaps;'', ''ccaron;'', ''ccirc;'', ''ccups;'', ''ccupssm;'',
     ''cdot;'', ''cemptyv;'', ''cfr;'', ''chcy;'', ''check;'', ''checkmark;'', ''chi;'',
     ''cir;'', ''cirE;'', ''circ;'', ''circeq;'', ''circlearrowleft;'', ''circlearrowright;'',
     ''circledS;'', ''circledast;'', ''circledcirc;'', ''circleddash;'', ''cire;'',
     ''cirfnint;'', ''cirmid;'', ''cirscir;'', ''clubs;'', ''clubsuit;'', ''colone;'',
     ''coloneq;'', ''comp;'', ''compfn;'', ''complement;'', ''complexes;'', ''cong;'',
     ''congdot;'', ''conint;'', ''copf;'', ''coprod;'', ''copysr;'', ''crarr;'', ''cross;'',
     ''cscr;'', ''csub;'', ''csube;'', ''csup;'', ''csupe;'', ''ctdot;'', ''cudarrl;'',
     ''cudarrr;'', ''cuepr;'', ''cuesc;'', ''cularr;'', ''cularrp;'', ''cup;'', ''cupbrcap;'',
     ''cupcap;'', ''cupcup;'', ''cupdot;'', ''cupor;'', ''cups;'', ''curarr;'', ''curarrm;'',
     ''curlyeqprec;'', ''curlyeqsucc;'', ''curlyvee;'', ''curlywedge;'', ''curvearrowleft;'',
     ''curvearrowright;'', ''cuvee;'', ''cuwed;'', ''cwconint;'', ''cwint;'', ''cylcty;'',
     ''dArr;'', ''dHar;'', ''dagger;'', ''daleth;'', ''darr;'', ''dash;'', ''dashv;'',
     ''dbkarow;'', ''dblac;'', ''dcaron;'', ''dcy;'', ''dd;'', ''ddagger;'', ''ddarr;'',
     ''ddotseq;'', ''delta;'', ''demptyv;'', ''dfisht;'', ''dfr;'', ''dharl;'', ''dharr;'',
     ''diam;'', ''diamond;'', ''diamondsuit;'', ''diams;'', ''digamma;'', ''disin;'',
     ''divideontimes;'', ''divonx;'', ''djcy;'', ''dlcorn;'', ''dlcrop;'', ''dopf;'', ''dot;'',
     ''doteq;'', ''doteqdot;'', ''dotminus;'', ''dotplus;'', ''dotsquare;'',
     ''doublebarwedge;'', ''downarrow;'', ''downdownarrows;'', ''downharpoonleft;'',
     ''downharpoonright;'', ''drbkarow;'', ''drcorn;'', ''drcrop;'', ''dscr;'', ''dscy;'',
     ''dsol;'', ''dstrok;'', ''dtdot;'', ''dtri;'', ''dtrif;'', ''duarr;'', ''duhar;'',
     ''dwangle;'', ''dzcy;'', ''dzigrarr;'', ''eDDot;'', ''eDot;'', ''easter;'', ''ecaron;'',
     ''ecir;'', ''ecolon;'', ''ecy;'', ''edot;'', ''ee;'', ''efDot;'', ''efr;'', ''eg;'',
     ''egs;'', ''egsdot;'', ''el;'', ''elinters;'', ''ell;'', ''els;'', ''elsdot;'',
     ''emacr;'', ''empty;'', ''emptyset;'', ''emptyv;'', ''emsp13;'', ''emsp14;'', ''emsp;'',
     ''eng;'', ''ensp;'', ''eogon;'', ''eopf;'', ''epar;'', ''eparsl;'', ''eplus;'', ''epsi;'',
     ''epsilon;'', ''epsiv;'', ''eqcirc;'', ''eqcolon;'', ''eqsim;'', ''eqslantgtr;'',
     ''eqslantless;'', ''equest;'', ''equiv;'', ''equivDD;'', ''eqvparsl;'', ''erDot;'',
     ''erarr;'', ''escr;'', ''esdot;'', ''esim;'', ''eta;'', ''euro;'', ''exist;'',
     ''expectation;'', ''exponentiale;'', ''fallingdotseq;'', ''fcy;'', ''female;'',
     ''ffilig;'', ''fflig;'', ''ffllig;'', ''ffr;'', ''filig;'', ''flat;'', ''fllig;'',
     ''fltns;'', ''fnof;'', ''fopf;'', ''forall;'', ''fork;'', ''forkv;'', ''fpartint;'',
     ''frac13;'', ''frac15;'', ''frac16;'', ''frac18;'', ''frac23;'', ''frac25;'', ''frac35;'',
     ''frac38;'', ''frac45;'', ''frac56;'', ''frac58;'', ''frac78;'', ''frasl;'', ''frown;'',
     ''fscr;'', ''gE;'', ''gEl;'', ''gacute;'', ''gamma;'', ''gammad;'', ''gap;'', ''gbreve;'',
     ''gcirc;'', ''gcy;'', ''gdot;'', ''ge;'', ''gel;'', ''geq;'', ''geqq;'', ''geqslant;'',
     ''ges;'', ''gescc;'', ''gesdot;'', ''gesdoto;'', ''gesdotol;'', ''gesl;'', ''gesles;'',
     ''gfr;'', ''gg;'', ''ggg;'', ''gimel;'', ''gjcy;'', ''gl;'', ''glE;'', ''gla;'', ''glj;'',
     ''gnE;'', ''gnap;'', ''gnapprox;'', ''gne;'', ''gneq;'', ''gneqq;'', ''gnsim;'',
     ''gopf;'', ''gscr;'', ''gsim;'', ''gsime;'', ''gsiml;'', ''gtcc;'', ''gtcir;'',
     ''gtdot;'', ''gtlPar;'', ''gtquest;'', ''gtrapprox;'', ''gtrarr;'', ''gtrdot;'',
     ''gtreqless;'', ''gtreqqless;'', ''gtrless;'', ''gtrsim;'', ''gvertneqq;'', ''gvnE;'',
     ''hArr;'', ''hairsp;'', ''hamilt;'', ''hardcy;'', ''harr;'', ''harrcir;'', ''harrw;'',
     ''hbar;'', ''hcirc;'', ''hearts;'', ''heartsuit;'', ''hellip;'', ''hercon;'', ''hfr;'',
     ''hksearow;'', ''hkswarow;'', ''hoarr;'', ''homtht;'', ''hookleftarrow;'',
     ''hookrightarrow;'', ''hopf;'', ''horbar;'', ''hscr;'', ''hslash;'', ''hstrok;'',
     ''hybull;'', ''hyphen;'', ''ic;'', ''icy;'', ''iecy;'', ''iff;'', ''ifr;'', ''ii;'',
     ''iiiint;'', ''iiint;'', ''iinfin;'', ''iiota;'', ''ijlig;'', ''imacr;'', ''image;'',
     ''imagline;'', ''imagpart;'', ''imath;'', ''imof;'', ''imped;'', ''in;'', ''incare;'',
     ''infin;'', ''infintie;'', ''inodot;'', ''int;'', ''intcal;'', ''integers;'',
     ''intercal;'', ''intlarhk;'', ''intprod;'', ''iocy;'', ''iogon;'', ''iopf;'', ''iota;'',
     ''iprod;'', ''iscr;'', ''isin;'', ''isinE;'', ''isindot;'', ''isins;'', ''isinsv;'',
     ''isinv;'', ''it;'', ''itilde;'', ''iukcy;'', ''jcirc;'', ''jcy;'', ''jfr;'', ''jmath;'',
     ''jopf;'', ''jscr;'', ''jsercy;'', ''jukcy;'', ''kappa;'', ''kappav;'', ''kcedil;'',
     ''kcy;'', ''kfr;'', ''kgreen;'', ''khcy;'', ''kjcy;'', ''kopf;'', ''kscr;'', ''lAarr;'',
     ''lArr;'', ''lAtail;'', ''lBarr;'', ''lE;'', ''lEg;'', ''lHar;'', ''lacute;'',
     ''laemptyv;'', ''lagran;'', ''lambda;'', ''lang;'', ''langd;'', ''langle;'', ''lap;'',
     ''larr;'', ''larrb;'', ''larrbfs;'', ''larrfs;'', ''larrhk;'', ''larrlp;'', ''larrpl;'',
     ''larrsim;'', ''larrtl;'', ''lat;'', ''latail;'', ''late;'', ''lates;'', ''lbarr;'',
     ''lbbrk;'', ''lbrke;'', ''lbrksld;'', ''lbrkslu;'', ''lcaron;'', ''lcedil;'', ''lceil;'',
     ''lcy;'', ''ldca;'', ''ldquo;'', ''ldquor;'', ''ldrdhar;'', ''ldrushar;'', ''ldsh;'',
     ''le;'', ''leftarrow;'', ''leftarrowtail;'', ''leftharpoondown;'', ''leftharpoonup;'',
     ''leftleftarrows;'', ''leftrightarrow;'', ''leftrightarrows;'', ''leftrightharpoons;'',
     ''leftrightsquigarrow;'', ''leftthreetimes;'', ''leg;'', ''leq;'', ''leqq;'',
     ''leqslant;'', ''les;'', ''lescc;'', ''lesdot;'', ''lesdoto;'', ''lesdotor;'', ''lesg;'',
     ''lesges;'', ''lessapprox;'', ''lessdot;'', ''lesseqgtr;'', ''lesseqqgtr;'', ''lessgtr;'',
     ''lesssim;'', ''lfisht;'', ''lfloor;'', ''lfr;'', ''lg;'', ''lgE;'', ''lhard;'',
     ''lharu;'', ''lharul;'', ''lhblk;'', ''ljcy;'', ''ll;'', ''llarr;'', ''llcorner;'',
     ''llhard;'', ''lltri;'', ''lmidot;'', ''lmoust;'', ''lmoustache;'', ''lnE;'', ''lnap;'',
     ''lnapprox;'', ''lne;'', ''lneq;'', ''lneqq;'', ''lnsim;'', ''loang;'', ''loarr;'',
     ''lobrk;'', ''longleftarrow;'', ''longleftrightarrow;'', ''longmapsto;'',
     ''longrightarrow;'', ''looparrowleft;'', ''looparrowright;'', ''lopar;'', ''lopf;'',
     ''loplus;'', ''lotimes;'', ''lowast;'', ''loz;'', ''lozenge;'', ''lozf;'', ''lparlt;'',
     ''lrarr;'', ''lrcorner;'', ''lrhar;'', ''lrhard;'', ''lrm;'', ''lrtri;'', ''lsaquo;'',
     ''lscr;'', ''lsh;'', ''lsim;'', ''lsime;'', ''lsimg;'', ''lsquo;'', ''lsquor;'',
     ''lstrok;'', ''ltcc;'', ''ltcir;'', ''ltdot;'', ''lthree;'', ''ltimes;'', ''ltlarr;'',
     ''ltquest;'', ''ltrPar;'', ''ltri;'', ''ltrie;'', ''ltrif;'', ''lurdshar;'', ''luruhar;'',
     ''lvertneqq;'', ''lvnE;'', ''mDDot;'', ''male;'', ''malt;'', ''maltese;'', ''map;'',
     ''mapsto;'', ''mapstodown;'', ''mapstoleft;'', ''mapstoup;'', ''marker;'', ''mcomma;'',
     ''mcy;'', ''mdash;'', ''measuredangle;'', ''mfr;'', ''mho;'', ''mid;'', ''midcir;'',
     ''minus;'', ''minusb;'', ''minusd;'', ''minusdu;'', ''mlcp;'', ''mldr;'', ''mnplus;'',
     ''models;'', ''mopf;'', ''mp;'', ''mscr;'', ''mstpos;'', ''mu;'', ''multimap;'',
     ''mumap;'', ''nGg;'', ''nGt;'', ''nGtv;'', ''nLeftarrow;'', ''nLeftrightarrow;'',
     ''nLl;'', ''nLt;'', ''nLtv;'', ''nRightarrow;'', ''nVDash;'', ''nVdash;'', ''nabla;'',
     ''nacute;'', ''nang;'', ''nap;'', ''napE;'', ''napid;'', ''napos;'', ''napprox;'',
     ''natur;'', ''natural;'', ''naturals;'', ''nbump;'', ''nbumpe;'', ''ncap;'', ''ncaron;'',
     ''ncedil;'', ''ncong;'', ''ncongdot;'', ''ncup;'', ''ncy;'', ''ndash;'', ''ne;'',
     ''neArr;'', ''nearhk;'', ''nearr;'', ''nearrow;'', ''nedot;'', ''nequiv;'', ''nesear;'',
     ''nesim;'', ''nexist;'', ''nexists;'', ''nfr;'', ''ngE;'', ''nge;'', ''ngeq;'',
     ''ngeqq;'', ''ngeqslant;'', ''nges;'', ''ngsim;'', ''ngt;'', ''ngtr;'', ''nhArr;'',
     ''nharr;'', ''nhpar;'', ''ni;'', ''nis;'', ''nisd;'', ''niv;'', ''njcy;'', ''nlArr;'',
     ''nlE;'', ''nlarr;'', ''nldr;'', ''nle;'', ''nleftarrow;'', ''nleftrightarrow;'',
     ''nleq;'', ''nleqq;'', ''nleqslant;'', ''nles;'', ''nless;'', ''nlsim;'', ''nlt;'',
     ''nltri;'', ''nltrie;'', ''nmid;'', ''nopf;'', ''notin;'', ''notinE;'', ''notindot;'',
     ''notinva;'', ''notinvb;'', ''notinvc;'', ''notni;'', ''notniva;'', ''notnivb;'',
     ''notnivc;'', ''npar;'', ''nparallel;'', ''nparsl;'', ''npart;'', ''npolint;'', ''npr;'',
     ''nprcue;'', ''npre;'', ''nprec;'', ''npreceq;'', ''nrArr;'', ''nrarr;'', ''nrarrc;'',
     ''nrarrw;'', ''nrightarrow;'', ''nrtri;'', ''nrtrie;'', ''nsc;'', ''nsccue;'', ''nsce;'',
     ''nscr;'', ''nshortmid;'', ''nshortparallel;'', ''nsim;'', ''nsime;'', ''nsimeq;'',
     ''nsmid;'', ''nspar;'', ''nsqsube;'', ''nsqsupe;'', ''nsub;'', ''nsubE;'', ''nsube;'',
     ''nsubset;'', ''nsubseteq;'', ''nsubseteqq;'', ''nsucc;'', ''nsucceq;'', ''nsup;'',
     ''nsupE;'', ''nsupe;'', ''nsupset;'', ''nsupseteq;'', ''nsupseteqq;'', ''ntgl;'',
     ''ntlg;'', ''ntriangleleft;'', ''ntrianglelefteq;'', ''ntriangleright;'',
     ''ntrianglerighteq;'', ''nu;'', ''numero;'', ''numsp;'', ''nvDash;'', ''nvHarr;'',
     ''nvap;'', ''nvdash;'', ''nvge;'', ''nvgt;'', ''nvinfin;'', ''nvlArr;'', ''nvle;'',
     ''nvlt;'', ''nvltrie;'', ''nvrArr;'', ''nvrtrie;'', ''nvsim;'', ''nwArr;'', ''nwarhk;'',
     ''nwarr;'', ''nwarrow;'', ''nwnear;'', ''oS;'', ''oast;'', ''ocir;'', ''ocy;'',
     ''odash;'', ''odblac;'', ''odiv;'', ''odot;'', ''odsold;'', ''oelig;'', ''ofcir;'',
     ''ofr;'', ''ogon;'', ''ogt;'', ''ohbar;'', ''ohm;'', ''oint;'', ''olarr;'', ''olcir;'',
     ''olcross;'', ''oline;'', ''olt;'', ''omacr;'', ''omega;'', ''omicron;'', ''omid;'',
     ''ominus;'', ''oopf;'', ''opar;'', ''operp;'', ''oplus;'', ''or;'', ''orarr;'', ''ord;'',
     ''order;'', ''orderof;'', ''origof;'', ''oror;'', ''orslope;'', ''orv;'', ''oscr;'',
     ''osol;'', ''otimes;'', ''otimesas;'', ''ovbar;'', ''par;'', ''parallel;'', ''parsim;'',
     ''parsl;'', ''part;'', ''pcy;'', ''permil;'', ''perp;'', ''pertenk;'', ''pfr;'', ''phi;'',
     ''phiv;'', ''phmmat;'', ''phone;'', ''pi;'', ''pitchfork;'', ''piv;'', ''planck;'',
     ''planckh;'', ''plankv;'', ''plusacir;'', ''plusb;'', ''pluscir;'', ''plusdo;'',
     ''plusdu;'', ''pluse;'', ''plussim;'', ''plustwo;'', ''pointint;'', ''popf;'', ''pr;'',
     ''prE;'', ''prap;'', ''prcue;'', ''pre;'', ''prec;'', ''precapprox;'', ''preccurlyeq;'',
     ''preceq;'', ''precnapprox;'', ''precneqq;'', ''precnsim;'', ''precsim;'', ''prime;'',
     ''primes;'', ''prnE;'', ''prnap;'', ''prnsim;'', ''prod;'', ''profalar;'', ''profline;'',
     ''profsurf;'', ''prop;'', ''propto;'', ''prsim;'', ''prurel;'', ''pscr;'', ''psi;'',
     ''puncsp;'', ''qfr;'', ''qint;'', ''qopf;'', ''qprime;'', ''qscr;'', ''quaternions;'',
     ''quatint;'', ''questeq;'', ''rAarr;'', ''rArr;'', ''rAtail;'', ''rBarr;'', ''rHar;'',
     ''race;'', ''racute;'', ''radic;'', ''raemptyv;'', ''rang;'', ''rangd;'', ''range;'',
     ''rangle;'', ''rarr;'', ''rarrap;'', ''rarrb;'', ''rarrbfs;'', ''rarrc;'', ''rarrfs;'',
     ''rarrhk;'', ''rarrlp;'', ''rarrpl;'', ''rarrsim;'', ''rarrtl;'', ''rarrw;'', ''ratail;'',
     ''ratio;'', ''rationals;'', ''rbarr;'', ''rbbrk;'', ''rbrke;'', ''rbrksld;'',
     ''rbrkslu;'', ''rcaron;'', ''rcedil;'', ''rceil;'', ''rcy;'', ''rdca;'', ''rdldhar;'',
     ''rdquo;'', ''rdquor;'', ''rdsh;'', ''real;'', ''realine;'', ''realpart;'', ''reals;'',
     ''rect;'', ''rfisht;'', ''rfloor;'', ''rfr;'', ''rhard;'', ''rharu;'', ''rharul;'',
     ''rho;'', ''rhov;'', ''rightarrow;'', ''rightarrowtail;'', ''rightharpoondown;'',
     ''rightharpoonup;'', ''rightleftarrows;'', ''rightleftharpoons;'', ''rightrightarrows;'',
     ''rightsquigarrow;'', ''rightthreetimes;'', ''ring;'', ''risingdotseq;'', ''rlarr;'',
     ''rlhar;'', ''rlm;'', ''rmoust;'', ''rmoustache;'', ''rnmid;'', ''roang;'', ''roarr;'',
     ''robrk;'', ''ropar;'', ''ropf;'', ''roplus;'', ''rotimes;'', ''rpargt;'', ''rppolint;'',
     ''rrarr;'', ''rsaquo;'', ''rscr;'', ''rsh;'', ''rsquo;'', ''rsquor;'', ''rthree;'',
     ''rtimes;'', ''rtri;'', ''rtrie;'', ''rtrif;'', ''rtriltri;'', ''ruluhar;'', ''rx;'',
     ''sacute;'', ''sbquo;'', ''sc;'', ''scE;'', ''scap;'', ''scaron;'', ''sccue;'', ''sce;'',
     ''scedil;'', ''scirc;'', ''scnE;'', ''scnap;'', ''scnsim;'', ''scpolint;'', ''scsim;'',
     ''scy;'', ''sdot;'', ''sdotb;'', ''sdote;'', ''seArr;'', ''searhk;'', ''searr;'',
     ''searrow;'', ''seswar;'', ''setminus;'', ''setmn;'', ''sext;'', ''sfr;'', ''sfrown;'',
     ''sharp;'', ''shchcy;'', ''shcy;'', ''shortmid;'', ''shortparallel;'', ''sigma;'',
     ''sigmaf;'', ''sigmav;'', ''sim;'', ''simdot;'', ''sime;'', ''simeq;'', ''simg;'',
     ''simgE;'', ''siml;'', ''simlE;'', ''simne;'', ''simplus;'', ''simrarr;'', ''slarr;'',
     ''smallsetminus;'', ''smashp;'', ''smeparsl;'', ''smid;'', ''smile;'', ''smt;'',
     ''smte;'', ''smtes;'', ''softcy;'', ''solb;'', ''solbar;'', ''sopf;'', ''spades;'',
     ''spadesuit;'', ''spar;'', ''sqcap;'', ''sqcaps;'', ''sqcup;'', ''sqcups;'', ''sqsub;'',
     ''sqsube;'', ''sqsubset;'', ''sqsubseteq;'', ''sqsup;'', ''sqsupe;'', ''sqsupset;'',
     ''sqsupseteq;'', ''squ;'', ''square;'', ''squarf;'', ''squf;'', ''srarr;'', ''sscr;'',
     ''ssetmn;'', ''ssmile;'', ''sstarf;'', ''star;'', ''starf;'', ''straightepsilon;'',
     ''straightphi;'', ''sub;'', ''subE;'', ''subdot;'', ''sube;'', ''subedot;'', ''submult;'',
     ''subnE;'', ''subne;'', ''subplus;'', ''subrarr;'', ''subset;'', ''subseteq;'',
     ''subseteqq;'', ''subsetneq;'', ''subsetneqq;'', ''subsim;'', ''subsub;'', ''subsup;'',
     ''succ;'', ''succapprox;'', ''succcurlyeq;'', ''succeq;'', ''succnapprox;'',
     ''succneqq;'', ''succnsim;'', ''succsim;'', ''sum;'', ''sung;'', ''sup;'', ''supE;'',
     ''supdot;'', ''supdsub;'', ''supe;'', ''supedot;'', ''suphsol;'', ''suphsub;'',
     ''suplarr;'', ''supmult;'', ''supnE;'', ''supne;'', ''supplus;'', ''supset;'',
     ''supseteq;'', ''supseteqq;'', ''supsetneq;'', ''supsetneqq;'', ''supsim;'', ''supsub;'',
     ''supsup;'', ''swArr;'', ''swarhk;'', ''swarr;'', ''swarrow;'', ''swnwar;'', ''target;'',
     ''tau;'', ''tbrk;'', ''tcaron;'', ''tcedil;'', ''tcy;'', ''tdot;'', ''telrec;'', ''tfr;'',
     ''there4;'', ''therefore;'', ''theta;'', ''thetasym;'', ''thetav;'', ''thickapprox;'',
     ''thicksim;'', ''thinsp;'', ''thkap;'', ''thksim;'', ''tilde;'', ''timesb;'',
     ''timesbar;'', ''timesd;'', ''tint;'', ''toea;'', ''top;'', ''topbot;'', ''topcir;'',
     ''topf;'', ''topfork;'', ''tosa;'', ''tprime;'', ''trade;'', ''triangle;'',
     ''triangledown;'', ''triangleleft;'', ''trianglelefteq;'', ''triangleq;'',
     ''triangleright;'', ''trianglerighteq;'', ''tridot;'', ''trie;'', ''triminus;'',
     ''triplus;'', ''trisb;'', ''tritime;'', ''trpezium;'', ''tscr;'', ''tscy;'', ''tshcy;'',
     ''tstrok;'', ''twixt;'', ''twoheadleftarrow;'', ''twoheadrightarrow;'', ''uArr;'',
     ''uHar;'', ''uarr;'', ''ubrcy;'', ''ubreve;'', ''ucy;'', ''udarr;'', ''udblac;'',
     ''udhar;'', ''ufisht;'', ''ufr;'', ''uharl;'', ''uharr;'', ''uhblk;'', ''ulcorn;'',
     ''ulcorner;'', ''ulcrop;'', ''ultri;'', ''umacr;'', ''uogon;'', ''uopf;'', ''uparrow;'',
     ''updownarrow;'', ''upharpoonleft;'', ''upharpoonright;'', ''uplus;'', ''upsi;'',
     ''upsih;'', ''upsilon;'', ''upuparrows;'', ''urcorn;'', ''urcorner;'', ''urcrop;'',
     ''uring;'', ''urtri;'', ''uscr;'', ''utdot;'', ''utilde;'', ''utri;'', ''utrif;'',
     ''uuarr;'', ''uwangle;'', ''vArr;'', ''vBar;'', ''vBarv;'', ''vDash;'', ''vangrt;'',
     ''varepsilon;'', ''varkappa;'', ''varnothing;'', ''varphi;'', ''varpi;'', ''varpropto;'',
     ''varr;'', ''varrho;'', ''varsigma;'', ''varsubsetneq;'', ''varsubsetneqq;'',
     ''varsupsetneq;'', ''varsupsetneqq;'', ''vartheta;'', ''vartriangleleft;'',
     ''vartriangleright;'', ''vcy;'', ''vdash;'', ''vee;'', ''veebar;'', ''veeeq;'',
     ''vellip;'', ''vfr;'', ''vltri;'', ''vnsub;'', ''vnsup;'', ''vopf;'', ''vprop;'',
     ''vrtri;'', ''vscr;'', ''vsubnE;'', ''vsubne;'', ''vsupnE;'', ''vsupne;'', ''vzigzag;'',
     ''wcirc;'', ''wedbar;'', ''wedge;'', ''wedgeq;'', ''weierp;'', ''wfr;'', ''wopf;'',
     ''wp;'', ''wr;'', ''wreath;'', ''wscr;'', ''xcap;'', ''xcirc;'', ''xcup;'', ''xdtri;'',
     ''xfr;'', ''xhArr;'', ''xharr;'', ''xi;'', ''xlArr;'', ''xlarr;'', ''xmap;'', ''xnis;'',
     ''xodot;'', ''xopf;'', ''xoplus;'', ''xotime;'', ''xrArr;'', ''xrarr;'', ''xscr;'',
     ''xsqcup;'', ''xuplus;'', ''xutri;'', ''xvee;'', ''xwedge;'', ''yacy;'', ''ycirc;'',
     ''ycy;'', ''yfr;'', ''yicy;'', ''yopf;'', ''yscr;'', ''yucy;'', ''zacute;'', ''zcaron;'',
     ''zcy;'', ''zdot;'', ''zeetrf;'', ''zeta;'', ''zfr;'', ''zhcy;'', ''zigrarr;'', ''zopf;'',
     ''zscr;'', ''zwj;'', ''zwnj;'']"

definition digit_val :: "char \<Rightarrow> int" where
  "digit_val c = (case map_of (zip ''0123456789abcdefABCDEF''
       [0, 1, 2, 3, 4, 5, 6, 7, 8, 9, 10, 11, 12, 13, 14, 15, 10, 11, 12, 13, 14, 15]) c of
     Some n \<Rightarrow> n | None \<Rightarrow> 0)"

definition int_of :: "int \<Rightarrow> string \<Rightarrow> int" where
  \<comment> \<open>\<open>int(ds, base)\<close> on a run of digits\<close>
  "int_of base ds = foldl (\<lambda>n d. n * base + digit_val d) 0 ds"

definition rstrip_semi :: "string \<Rightarrow> string" where
  \<comment> \<open>\<open>s.rstrip(';')\<close>\<close>
  "rstrip_semi s = rev (dropWhile (\<lambda>c. c = CHR '';'') (rev s))"

definition numeric_charref :: "int \<Rightarrow> string option" where
  \<comment> \<open>the replacement of \<open>&#num;\<close>; \<open>None\<close> when it lies beyond code point 255\<close>
  "numeric_charref num =
     (if num = 0x0D then Some [CHR 0x0D]
      else if num = 0 \<or> (0x80 \<le> num \<and> num \<le> 0x9F) then
        (if num \<in> {0x81, 0x8D, 0x8F, 0x90, 0x9D} then Some [char_of num] else None)
      else if (0xD800 \<le> num \<and> num \<le> 0xDFFF) \<or> num > 0x10FFFF then None
      else if (1 \<le> num \<and> num \<le> 8) \<or> (0xE \<le> num \<and> num \<le> 0x1F) \<or> num = 0x7F
           \<or> (0xFDD0 \<le> num \<and> num \<le> 0xFDEF) \<or> num = 0xB
           \<or> num mod 0x10000 \<in> {0xFFFE, 0xFFFF} then Some []
      else if num \<le> 0xFF then Some [char_of num]
      else None)"

fun longest_prefix :: "nat \<Rightarrow> string \<Rightarrow> string option" where
  \<comment> \<open>\<open>for x in range(len(s)-1, 1, -1)\<close>: the longest proper prefix that is a name\<close>
  "longest_prefix x s =
     (if x \<le> 1 then None
      else case map_of html5 (take x s) of Some r \<Rightarrow> Some (r @ drop x s)
           | None \<Rightarrow> if take x s \<in> set html5_wide then Some (CHR ''&'' # s)
                     else longest_prefix (x - 1) s)"

declare longest_prefix.simps [simp del]

definition replace_charref :: "match \<Rightarrow> string" where
  "replace_charref m = (let s = group m 1 in
     if take 1 s = ''#'' then
       (let num = (if take 1 (drop 1 s) \<in> {''x'', ''X''} then int_of 16 (rstrip_semi (drop 2 s))
                   else int_of 10 (rstrip_semi (drop 1 s)))
        in case numeric_charref num of Some r \<Rightarrow> r | None \<Rightarrow> CHR ''&'' # s)
     else (case map_of html5 s of Some r \<Rightarrow> r
           | None \<Rightarrow> if s \<in> set html5_wide then CHR ''&'' # s
                     else (case longest_prefix (length s - 1) s of Some r \<Rightarrow> r
                           | None \<Rightarrow> CHR ''&'' # s)))"

definition unescape_raises :: "string \<Rightarrow> bool" where
  \<comment> \<open>a decimal reference of \<open>s\<close> has more than 4300 digits\<close>
  "unescape_raises s =
     list_ex (\<lambda>m. let r = group m 1 in
                take 1 r = ''#'' \<and> take 1 (drop 1 r) \<notin> {''x'', ''X''}
                \<and> 4300 < length (rstrip_semi (drop 1 r)))
       (finditer False charref s)"

definition unescape :: "string \<Rightarrow> string" where
  "unescape s = (if CHR ''&'' \<notin> set s then s else sub False charref replace_charref s)"

subsection \<open>strip_tags and extract_between\<close>

definition any_char :: atom where
  \<comment> \<open>\<open>[\s\S]\<close>\<close>
  "any_char = Class [Space, NonSpace]"

definition script_re :: regex where
  \<comment> \<open>\<open><script[\s\S]*?</script>\<close>\<close>
  "script_re = cat [lit ''<script'', Lazy0 any_char, lit ''</script>'']"

definition style_re :: regex where
  \<comment> \<open>\<open><style[\s\S]*?</style>\<close>\<close>
  "style_re = cat [lit ''<style'', Lazy0 any_char, lit ''</style>'']"

definition tag_re :: regex where
  \<comment> \<open>\<open><[^>]+>\<close>\<close>
  "tag_re = cat [lit ''<'', Rep1 (NotClass [Ch CHR ''>'']), lit ''>'']"

definition ws_re :: regex where
  \<comment> \<open>\<open>\s+\<close>\<close>
  "ws_re = Rep1 (Class [Space])"

definition strip_tags :: "string \<Rightarrow> string" where
  "strip_tags html =
     (let html = sub True script_re (\<lambda>_. []) html;
          html = sub True style_re (\<lambda>_. []) html;
          text = sub False tag_re (\<lambda>_. '' '') html;
          text = strip (sub False ws_re (\<lambda>_. '' '') text)
      in unescape text)"

definition strip_tags_raises :: "string \<Rightarrow> bool" where
  \<comment> \<open>\<open>strip_tags(html)\<close> raises \<open>ValueError\<close>: \<open>unescape\<close> does, on the text it is given\<close>
  "strip_tags_raises html =
     (let html = sub True script_re (\<lambda>_. []) html;
          html = sub True style_re (\<lambda>_. []) html;
          text = sub False tag_re (\<lambda>_. '' '') html;
          text = strip (sub False ws_re (\<lambda>_. '' '') text)
      in unescape_raises text)"

definition extract_between :: "regex \<Rightarrow> string \<Rightarrow> string" where
  \<comment> \<open>the flags default to \<open>re.IGNORECASE | re.DOTALL\<close>; no pattern has a dot\<close>
  "extract_between pattern text =
     (case search True pattern text of Some m \<Rightarrow> strip (group m 1) | None \<Rightarrow> [])"

subsection \<open>extract_metas\<close>

definition not_gt :: atom where
  \<comment> \<open>\<open>[^>]\<close>\<close>
  "not_gt = NotClass [Ch CHR ''>'']"

definition not_quote :: atom where
  \<comment> \<open>\<open>[^"]\<close>\<close>
  "not_quote = NotClass [Ch CHR 0x22]"

definition ws :: atom where
  \<comment> \<open>\<open>\s\<close>\<close>
  "ws = Class [Space]"

definition quote :: regex where
  \<comment> \<open>a double quote\<close>
  "quote = One (Lit CHR 0x22)"

definition charset_re :: regex where
  \<comment> \<open>\<open><meta[^>]*charset\s*=\s*"?([^\s"/>]+)"?\<close>\<close>
  "charset_re = cat [lit ''<meta'', Rep0 not_gt, lit ''charset'', Rep0 ws, lit ''='', Rep0 ws,
     Opt quote, Grp (Rep1 (NotClass [Space, Ch CHR 0x22, Ch CHR ''/'', Ch CHR ''>''])),
     Opt quote]"

definition meta_name_re :: "string \<Rightarrow> regex" where
  \<comment> \<open>\<open><meta[^>]*name\s*=\s*"?\<close> + name + \<open>"?[^>]*content\s*=\s*"([^"]*)"\<close>,
      for a name of letters\<close>
  "meta_name_re name = cat [lit ''<meta'', Rep0 not_gt, lit ''name'', Rep0 ws, lit ''='',
     Rep0 ws, Opt quote, lit name, Opt quote, Rep0 not_gt, lit ''content'', Rep0 ws,
     lit ''='', Rep0 ws, quote, Grp (Rep0 not_quote), quote]"

definition canonical_re :: regex where
  \<comment> \<open>\<open><link[^>]*rel\s*=\s*"?canonical"?[^>]*href\s*=\s*"([^"]+)"\<close>\<close>
  "canonical_re = cat [lit ''<link'', Rep0 not_gt, lit ''rel'', Rep0 ws, lit ''='', Rep0 ws,
     Opt quote, lit ''canonical'', Opt quote, Rep0 not_gt, lit ''href'', Rep0 ws, lit ''='',
     Rep0 ws, quote, Grp (Rep1 not_quote), quote]"

definition extract_metas :: "string \<Rightarrow> (string \<rightharpoonup> string)" where
  "extract_metas html =
     (let metas = Map.empty;
          metas = (case search True charset_re html of
                     Some m \<Rightarrow> metas(''charset'' \<mapsto> lower (group m 1)) | None \<Rightarrow> metas);
          metas = foldl (\<lambda>metas name.
                     case search True (meta_name_re name) html of
                       Some m \<Rightarrow> metas(name \<mapsto> strip (group m 1)) | None \<Rightarrow> metas)
                   metas [''description'', ''keywords'', ''robots''];
          metas = (case search True canonical_re html of
                     Some m \<Rightarrow> metas(''canonical'' \<mapsto> strip (group m 1)) | None \<Rightarrow> metas)
      in metas)"

subsection \<open>extract_headings\<close>

definition digit_chr :: "nat \<Rightarrow> char" where
  "digit_chr d = (''0123456789'' ! d)"

fun show_nat :: "nat \<Rightarrow> string" where
  \<comment> \<open>a number as an f-string writes it\<close>
  "show_nat n = (if n < 10 then [digit_chr n] else show_nat (n div 10) @ [digit_chr (n mod 10)])"

declare show_nat.simps [simp del]

definition heading_re :: "string \<Rightarrow> regex" where
  \<comment> \<open>\<open><{tag}[^>]*>([\s\S]*?)</{tag}>\<close>\<close>
  "heading_re tag = cat [lit (''<'' @ tag), Rep0 not_gt, lit ''>'', Grp (Lazy0 any_char),
     lit (''</'' @ tag @ ''>'')]"

definition heading_items :: "string list \<Rightarrow> string list" where
  \<comment> \<open>\<open>[strip_tags(m).strip() for m in matches if strip_tags(m).strip()]\<close>\<close>
  "heading_items ms = map (\<lambda>m. strip (strip_tags m)) (filter (\<lambda>m. strip (strip_tags m) \<noteq> []) ms)"

definition extract_headings :: "string \<Rightarrow> (string \<rightharpoonup> string list)" where
  "extract_headings html =
     foldl (\<lambda>headings level.
        let tag = ''h'' @ show_nat level;
            ms = findall True (heading_re tag) html
        in if ms \<noteq> [] then
             (let items = heading_items ms
              in if items \<noteq> [] then headings(tag \<mapsto> items) else headings)
           else headings)
       Map.empty [1..<7]"


subsection \<open>extract_links and extract_images\<close>

record link =
  href :: string
  anchor :: string
  rel :: string
  target :: string

definition anchor_re :: regex where
  \<comment> \<open>\<open><a[^>]*href\s*=\s*"([^"]+)"[^>]*>([\s\S]*?)</a>\<close>\<close>
  "anchor_re = cat [lit ''<a'', Rep0 not_gt, lit ''href'', Rep0 ws, lit ''='', Rep0 ws, quote,
     Grp (Rep1 not_quote), quote, Rep0 not_gt, lit ''>'', Grp (Lazy0 any_char), lit ''</a>'']"

definition quoted_attr_re :: "string \<Rightarrow> regex" where
  \<comment> \<open>\<open>{attr}\s*=\s*"([^"]+)"\<close>, as for \<open>rel\<close> and \<open>target\<close>\<close>
  "quoted_attr_re attr = cat [lit attr, Rep0 ws, lit ''='', Rep0 ws, quote,
     Grp (Rep1 not_quote), quote]"

definition link_of :: "match \<Rightarrow> link" where
  \<comment> \<open>the body of the loop of \<open>extract_links\<close>\<close>
  "link_of m =
     (let href = strip (group m 1);
          anchor = strip_tags (group m 2);
          rel_m = search True (quoted_attr_re ''rel'') (group m 0);
          rel = (case rel_m of Some r \<Rightarrow> group r 1 | None \<Rightarrow> []);
          target_m = search True (quoted_attr_re ''target'') (group m 0);
          target = (case target_m of Some r \<Rightarrow> group r 1 | None \<Rightarrow> [])
      in \<lparr>href = href, anchor = anchor, rel = rel, target = target\<rparr>)"

definition extract_links :: "string \<Rightarrow> link list" where
  "extract_links html = foldl (\<lambda>links m. links @ [link_of m]) [] (finditer True anchor_re html)"

definition extract_links_raises :: "string \<Rightarrow> bool" where
  \<comment> \<open>\<open>extract_links(html)\<close> raises \<open>ValueError\<close>: \<open>strip_tags\<close> does, on a body\<close>
  "extract_links_raises html =
     list_ex (\<lambda>m. strip_tags_raises (group m 2)) (finditer True anchor_re html)"

record img =
  src :: string
  alt :: string
  img_title :: string
  width :: string
  height :: string

definition img_re :: regex where
  \<comment> \<open>\<open><img[^>]*>\<close>\<close>
  "img_re = cat [lit ''<img'', Rep0 not_gt, lit ''>'']"

definition get_attr :: "string \<Rightarrow> string \<Rightarrow> string" where
  \<comment> \<open>the local function of \<open>extract_images\<close>: \<open>{attr}\s*=\s*"([^"]*)"\<close> in the tag\<close>
  "get_attr tag attr =
     (case search True (cat [lit attr, Rep0 ws, lit ''='', Rep0 ws, quote, Grp (Rep0 not_quote),
             quote]) tag of
        Some am \<Rightarrow> strip (group am 1) | None \<Rightarrow> [])"

definition img_of :: "match \<Rightarrow> img" where
  "img_of m = (let tag = group m 0 in
     \<lparr>src = get_attr tag ''src'', alt = get_attr tag ''alt'', img_title = get_attr tag ''title'',
      width = get_attr tag ''width'', height = get_attr tag ''height''\<rparr>)"

definition extract_images :: "string \<Rightarrow> img list" where
  "extract_images html = foldl (\<lambda>images m. images @ [img_of m]) [] (finditer True img_re html)"

subsection \<open>make_page_object\<close>

record meta =
  description :: string
  keywords' :: string
  robots :: string
  canonical :: string
  charset :: string

record page =
  ptype :: string
  path :: string
  status :: nat
  title :: string
  meta :: meta
  openGraph :: "(string \<times> string) list"
  twitter :: "(string \<times> string) list"
  headings :: "string \<rightharpoonup> string list"
  contentHtml :: string
  internalLinks :: "link list"
  externalLinks :: "link list"
  images :: "img list"
  breadcrumbs :: "string list"

definition scheme_re :: regex where
  \<comment> \<open>\<open>^[a-zA-Z]+:\<close>, under \<open>re.match\<close>, where \<open>^\<close> holds\<close>
  "scheme_re = cat [Rep1 (Class [Rng CHR ''a'' CHR ''z'', Rng CHR ''A'' CHR ''Z'']), lit '':'']"

definition classify :: "string \<Rightarrow> link list \<times> link list \<Rightarrow> link \<Rightarrow> link list \<times> link list" where
  \<comment> \<open>the body of the loop over \<open>links\<close>, on the pair (internal_links, external_links)\<close>
  "classify site_domain acc l =
     (case acc of (internal_links, external_links) \<Rightarrow>
        let href = strip (link.href l);
            lower_href = lower href
        in if href = [] \<or> startswith_any lower_href [''mailto:'', ''tel:'', ''javascript:'']
           then (internal_links, external_links @ [l])
           else if startswith_any lower_href [''http://'', ''https://'', ''//''] then
             (if contains lower_href site_domain then (internal_links @ [l], external_links)
              else (internal_links, external_links @ [l]))
           else if startswith_any href [''#'', ''/'', ''./'', ''../'']
                   \<or> match_here False scheme_re href = None
           then (internal_links @ [l], external_links)
           else (internal_links, external_links @ [l]))"

definition get_or :: "('k \<rightharpoonup> 'v) \<Rightarrow> 'k \<Rightarrow> 'v \<Rightarrow> 'v" where
  \<comment> \<open>\<open>d.get(k, default)\<close>\<close>
  "get_or d k dflt = (case d k of Some v \<Rightarrow> v | None \<Rightarrow> dflt)"

definition title_re :: regex where
  \<comment> \<open>\<open><title>([\s\S]*?)</title>\<close>\<close>
  "title_re = cat [lit ''<title>'', Grp (Lazy0 any_char), lit ''</title>'']"

text \<open>
  \<open>make_page_object\<close> reads the file itself; the model takes what the two calls into
  the file system give it: \<open>rel_path\<close> is \<open>os.path.relpath(file_path, root_dir)\<close> and
  \<open>html\<close> is \<open>read_file_safe(file_path)\<close>.
\<close>

definition make_page_object :: "string \<Rightarrow> string \<Rightarrow> string \<Rightarrow> page" where
  "make_page_object rel_path html site_domain =
     (let title = extract_between title_re html;
          metas = extract_metas html;
          headings = extract_headings html;
          links = extract_links html;
          images = extract_images html;
          (internal_links, external_links) = foldl (classify site_domain) ([], []) links
      in \<lparr>ptype = ''page'',
          path = ''/'' @ map (\<lambda>c. if c = CHR 0x5C then CHR ''/'' else c) rel_path,
          status = 200,
          title = (if title \<noteq> [] then strip_tags title else []),
          meta = \<lparr>description = get_or metas ''description'' [],
                  keywords' = get_or metas ''keywords'' [],
                  robots = get_or metas ''robots'' ''index,follow'',
                  canonical = get_or metas ''canonical'' [],
                  charset = get_or metas ''charset'' ''utf-8''\<rparr>,
          openGraph = [],
          twitter = [],
          headings = headings,
          contentHtml = html,
          internalLinks = internal_links,
          externalLinks = external_links,
          images = images,
          breadcrumbs = []\<rparr>)"

section \<open>The validator (tools/validate_seo_manifest.py)\<close>

text \<open>
  A decoded line is a value of \<open>json\<close>; an object is the association list of the
  \<open>dict\<close> that \<open>json.loads\<close> builds, each key once. Numbers are integers. \<open>str_of\<close> is
  Python's \<open>str()\<close> on a decoded value, which an f-string applies to what it
  interpolates. An exception nothing catches ends the run without a report: it is the
  \<open>Inl\<close> of a result.

  The decoder itself is a parameter, \<open>loads\<close>, with the three outcomes \<open>json.loads\<close> has
  on a line: it returns the value; it raises \<open>JSONDecodeError\<close>, with a text; or it
  raises another exception, as it does with \<open>RecursionError\<close> on a line nested too
  deep and with \<open>ValueError\<close> on an integer of more than 4300 digits. The \<open>except\<close>
  clause of \<open>iter_ndjson\<close> names \<open>JSONDecodeError\<close> only.
\<close>

datatype json = JNull | JBool bool | JNum int | JStr string | JArr "json list"
  | JObj "(string \<times> json) list"

datatype error = AttributeError | TypeError | IndexError | RecursionError | ValueError

datatype decoded = Value json | JSONDecodeError string | Raise error

record state =
  issues :: "json list"
  seen_paths :: "string set"
  page_count :: nat

fun truthy :: "json \<Rightarrow> bool" where
  "truthy JNull = False"
| "truthy (JBool b) = b"
| "truthy (JNum n) = (n \<noteq> 0)"
| "truthy (JStr s) = (s \<noteq> [])"
| "truthy (JArr xs) = (xs \<noteq> [])"
| "truthy (JObj d) = (d \<noteq> [])"

definition dict_get :: "(string \<times> json) list \<Rightarrow> string \<Rightarrow> json \<Rightarrow> json" where
  \<comment> \<open>\<open>d.get(k, default)\<close>; \<open>d.get(k)\<close> has the default \<open>None\<close>\<close>
  "dict_get d k dflt = (case map_of d k of Some v \<Rightarrow> v | None \<Rightarrow> dflt)"

definition fmt :: "(json \<Rightarrow> string) \<Rightarrow> json \<Rightarrow> string" where
  \<comment> \<open>a value interpolated into an f-string\<close>
  "fmt str_of v = (case v of JStr s \<Rightarrow> s | _ \<Rightarrow> str_of v)"

definition and_then :: "error + 'a \<Rightarrow> ('a \<Rightarrow> error + 'b) \<Rightarrow> error + 'b" where
  "and_then r f = (case r of Inl e \<Rightarrow> Inl e | Inr x \<Rightarrow> f x)"

fun for_each :: "('s \<Rightarrow> 'a \<Rightarrow> error + 's) \<Rightarrow> 's \<Rightarrow> 'a list \<Rightarrow> error + 's" where
  \<comment> \<open>a \<open>for\<close> loop over a list, the body threading the state\<close>
  "for_each body st [] = Inr st"
| "for_each body st (x # xs) =
     (case body st x of Inl e \<Rightarrow> Inl e | Inr st' \<Rightarrow> for_each body st' xs)"

fun py_iter :: "json \<Rightarrow> error + json list" where
  \<comment> \<open>what \<open>for x in v\<close> runs over\<close>
  "py_iter (JArr xs) = Inr xs"
| "py_iter (JStr s) = Inr (map (\<lambda>c. JStr [c]) s)"
| "py_iter (JObj d) = Inr (map (\<lambda>kv. JStr (fst kv)) d)"
| "py_iter v = Inl TypeError"

text \<open>
  The generator \<open>iter_ndjson\<close> is the list of what it yields, \<open>enumerate\<close> starting it at
  line 1, together with the way it ends: it is exhausted with the file, or an
  exception of \<open>json.loads\<close> that it does not catch leaves it on the line that raised
  it, after the items of the lines before.
\<close>

fun iter_ndjson :: "(string \<Rightarrow> decoded) \<Rightarrow> nat \<Rightarrow> string list \<Rightarrow> (nat \<times> json) list" where
  \<comment> \<open>the items the generator yields\<close>
  "iter_ndjson loads line_num [] = []"
| "iter_ndjson loads line_num (line # f) =
     (let line = strip line in
      if line = [] then iter_ndjson loads (line_num + 1) f
      else (case loads line of
              Value v \<Rightarrow> (line_num, v) # iter_ndjson loads (line_num + 1) f
            | JSONDecodeError e \<Rightarrow>
                (line_num, JObj [(''__error__'',
                   JStr (''JSON parse error at line '' @ show_nat line_num @ '': '' @ e))])
                # iter_ndjson loads (line_num + 1) f
            | Raise x \<Rightarrow> []))"

fun iter_ndjson_raises :: "(string \<Rightarrow> decoded) \<Rightarrow> string list \<Rightarrow> error option" where
  \<comment> \<open>the exception that ends the generator, \<open>None\<close> when it reaches the end of the file\<close>
  "iter_ndjson_raises loads [] = None"
| "iter_ndjson_raises loads (line # f) =
     (let line = strip line in
      if line = [] then iter_ndjson_raises loads f
      else (case loads line of
              Raise x \<Rightarrow> Some x
            | _ \<Rightarrow> iter_ndjson_raises loads f))"

definition is_abs_url :: "string \<Rightarrow> bool" where
  "is_abs_url href' = startswith_any (lower href') [''http://'', ''https://'', ''//'']"

definition add_issue :: "state \<Rightarrow> string \<Rightarrow> state" where
  \<comment> \<open>\<open>issues.append(...)\<close> of a text\<close>
  "add_issue st s = st\<lparr>issues := issues st @ [JStr s]\<rparr>"

definition field_strip :: "json \<Rightarrow> string \<Rightarrow> error + string" where
  \<comment> \<open>\<open>(x.get(k) or '').strip()\<close>\<close>
  "field_strip x k =
     (case x of
        JObj d \<Rightarrow> (let v = dict_get d k JNull in
                   if truthy v then (case v of JStr s \<Rightarrow> Inr (strip s) | _ \<Rightarrow> Inl AttributeError)
                   else Inr (strip []))
      | _ \<Rightarrow> Inl AttributeError)"

definition check_internal :: "nat \<Rightarrow> string \<Rightarrow> state \<Rightarrow> json \<Rightarrow> error + state" where
  \<comment> \<open>the body of the loop over \<open>internalLinks\<close>; \<open>path.split('/')[1]\<close> needs a slash\<close>
  "check_internal ln path' st link =
     and_then (field_strip link ''href'') (\<lambda>href'.
       let st = (if href' = [] then
                   add_issue st (''Line '' @ show_nat ln @ '': empty internal href at '' @ path')
                 else st)
       in if is_abs_url href' \<and> CHR ''/'' \<notin> set path' then Inl IndexError else Inr st)"

definition check_external :: "nat \<Rightarrow> string \<Rightarrow> state \<Rightarrow> json \<Rightarrow> error + state" where
  "check_external ln path' st link =
     and_then (field_strip link ''href'') (\<lambda>href'.
       Inr (if href' = [] then
              add_issue st (''Line '' @ show_nat ln @ '': empty external href at '' @ path')
            else st))"

definition check_image :: "nat \<Rightarrow> string \<Rightarrow> state \<Rightarrow> json \<Rightarrow> error + state" where
  "check_image ln path' st img =
     and_then (field_strip img ''src'') (\<lambda>src'.
       let st = (if src' = [] then
                   add_issue st (''Line '' @ show_nat ln @ '': empty image src at '' @ path')
                 else st)
       in and_then (field_strip img ''alt'') (\<lambda>alt'.
            Inr (if alt' = [] then
                   add_issue st (''Line '' @ show_nat ln @ '': missing alt for image '' @ src'
                                 @ '' at '' @ path')
                 else st)))"

definition check_page :: "nat \<Rightarrow> (string \<times> json) list \<Rightarrow> state \<Rightarrow> error + state" where
  \<comment> \<open>the branch \<open>typ == 'page'\<close>\<close>
  "check_page ln obj st =
     (let st = st\<lparr>page_count := page_count st + 1\<rparr> in
      case dict_get obj ''path'' (JStr []) of
        JStr path' \<Rightarrow>
          (let st = (if \<not> startswith path' ''/'' then
                       add_issue st (''Line '' @ show_nat ln
                                     @ '': page.path must start with '' @ [CHR 0x22, CHR ''/'', CHR 0x22]
                                     @ '' -> '' @ path')
                     else st);
               st = (if path' \<in> seen_paths st then
                       add_issue st (''Line '' @ show_nat ln @ '': duplicate page.path '' @ path')
                     else st);
               st = st\<lparr>seen_paths := insert path' (seen_paths st)\<rparr>
           in case dict_get obj ''meta'' (JObj []) of
                JObj meta' \<Rightarrow>
                  (case dict_get meta' ''charset'' (JStr []) of
                     JStr cs \<Rightarrow>
                       (let st = (if lower cs \<notin> {''utf-8'', ''utf8''} then
                                    add_issue st (''Line '' @ show_nat ln
                                                  @ '': non-utf8 charset for '' @ path')
                                  else st)
                        in and_then (py_iter (dict_get obj ''internalLinks'' (JArr []))) (\<lambda>links.
                           and_then (for_each (check_internal ln path') st links) (\<lambda>st.
                           and_then (py_iter (dict_get obj ''externalLinks'' (JArr []))) (\<lambda>links.
                           and_then (for_each (check_external ln path') st links) (\<lambda>st.
                           and_then (py_iter (dict_get obj ''images'' (JArr []))) (\<lambda>imgs.
                           for_each (check_image ln path') st imgs))))))
                   | _ \<Rightarrow> Inl AttributeError)
              | _ \<Rightarrow> Inl AttributeError)
      | _ \<Rightarrow> Inl AttributeError)"

definition check_record :: "(json \<Rightarrow> string) \<Rightarrow> state \<Rightarrow> nat \<times> json \<Rightarrow> error + state" where
  \<comment> \<open>the body of the loop of \<open>main\<close>\<close>
  "check_record str_of st item =
     (case item of (ln, obj) \<Rightarrow>
        (case obj of
           JObj d \<Rightarrow>
             (case map_of d ''__error__'' of
                Some e \<Rightarrow> Inr (st\<lparr>issues := issues st @ [e]\<rparr>)
              | None \<Rightarrow>
                  (let typ = dict_get d ''type'' JNull in
                   if typ = JStr ''site'' then
                     Inr (if \<not> truthy (dict_get d ''domain'' JNull) then
                            add_issue st (''Line '' @ show_nat ln @ '': site.domain missing'')
                          else st)
                   else if typ = JStr ''robotsTxt'' \<or> typ = JStr ''sitemapXml'' then
                     Inr (if \<not> truthy (dict_get d ''content'' JNull) then
                            add_issue st (''Line '' @ show_nat ln @ '': '' @ fmt str_of typ
                                          @ ''.content empty'')
                          else st)
                   else if typ = JStr ''page'' then check_page ln d st
                   else Inr (add_issue st (''Line '' @ show_nat ln @ '': unknown type ''
                                           @ fmt str_of typ))))
         | JStr s \<Rightarrow> if contains s ''__error__'' then Inl TypeError else Inl AttributeError
         | JArr xs \<Rightarrow> if JStr ''__error__'' \<in> set xs then Inl TypeError else Inl AttributeError
         | _ \<Rightarrow> Inl TypeError))"

record summary =
  pages :: nat
  uniquePaths :: nat
  issuesCount :: nat

record report =
  summary :: summary
  issues_out :: "json list"

definition init :: state where
  "init = \<lparr>issues = [], seen_paths = {}, page_count = 0\<rparr>"

definition run_from :: "(string \<Rightarrow> decoded) \<Rightarrow> (json \<Rightarrow> string) \<Rightarrow> nat \<Rightarrow> state \<Rightarrow> string list
    \<Rightarrow> error + state" where
  \<comment> \<open>the loop of \<open>main\<close> over the lines \<open>f\<close>, the first of them numbered \<open>line_num\<close>: the
      body runs on every item the generator yields, then the generator's exception, if
      it ends with one, leaves the loop\<close>
  "run_from loads str_of line_num st f =
     and_then (for_each (check_record str_of) st (iter_ndjson loads line_num f)) (\<lambda>st.
       case iter_ndjson_raises loads f of Some x \<Rightarrow> Inl x | None \<Rightarrow> Inr st)"

definition run :: "(string \<Rightarrow> decoded) \<Rightarrow> (json \<Rightarrow> string) \<Rightarrow> string list \<Rightarrow> error + state" where
  \<comment> \<open>the loop of \<open>main\<close> over the whole manifest\<close>
  "run loads str_of f = run_from loads str_of 1 init f"

definition main :: "(string \<Rightarrow> decoded) \<Rightarrow> (json \<Rightarrow> string) \<Rightarrow> string list \<Rightarrow> error + report" where
  \<comment> \<open>the report \<open>main\<close> prints, for a manifest of the lines \<open>f\<close>\<close>
  "main loads str_of f =
     (case run loads str_of f of
        Inl e \<Rightarrow> Inl e
      | Inr st \<Rightarrow> Inr \<lparr>summary = \<lparr>pages = page_count st, uniquePaths = card (seen_paths st),
                                    issuesCount = length (issues st)\<rparr>,
                        issues_out = take 200 (issues st)\<rparr>)"

section \<open>Notions the properties are stated with\<close>

definition is_internal :: "string \<Rightarrow> link \<Rightarrow> bool" where
  \<comment> \<open>the loop body of \<open>make_page_object\<close> appends the link to \<open>internal_links\<close>\<close>
  "is_internal site_domain l = (fst (classify site_domain ([], []) l) = [l])"

definition other_issue :: "nat \<Rightarrow> json \<Rightarrow> bool" where
  "other_issue ln x = (\<exists>c rest. x = JStr (''Line '' @ show_nat ln @ '': '' @ c # rest) \<and> c \<noteq> CHR ''d'')"

definition extends :: "nat \<Rightarrow> state \<Rightarrow> state \<Rightarrow> bool" where
  "extends ln st st' = (seen_paths st' = seen_paths st \<and> page_count st' = page_count st
     \<and> (\<exists>new. issues st' = issues st @ new \<and> list_all (other_issue ln) new))"

definition page_path_of :: "nat \<times> json \<Rightarrow> string list" where
  "page_path_of item =
     (case snd item of
        JObj d \<Rightarrow> (if map_of d ''__error__'' = None \<and> dict_get d ''type'' JNull = JStr ''page''
                   then (case dict_get d ''path'' (JStr []) of JStr q \<Rightarrow> [q] | _ \<Rightarrow> [])
                   else [])
      | _ \<Rightarrow> [])"

definition page_paths :: "(nat \<times> json) list \<Rightarrow> string set" where
  "page_paths items = set (concat (map page_path_of items))"

definition dup_issue :: "nat \<Rightarrow> string \<Rightarrow> json" where
  \<comment> \<open>the duplicate-path issue that names the line \<open>ln\<close> and the path \<open>p\<close>\<close>
  "dup_issue ln p = JStr (''Line '' @ show_nat ln @ '': duplicate page.path '' @ p)"

definition page_record :: "json \<Rightarrow> string option" where
  \<comment> \<open>the path of a page record: an object whose \<open>type\<close> is \<open>page\<close>, with its \<open>path\<close>
      (the empty path when it has none)\<close>
  "page_record obj =
     (case obj of
        JObj d \<Rightarrow> (if dict_get d ''type'' JNull = JStr ''page''
                   then (case dict_get d ''path'' (JStr []) of JStr q \<Rightarrow> Some q | _ \<Rightarrow> None)
                   else None)
      | _ \<Rightarrow> None)"

definition repeat_from :: "string set \<Rightarrow> (nat \<times> json) list \<Rightarrow> nat \<Rightarrow> string \<Rightarrow> bool" where
  \<comment> \<open>the item of line \<open>n\<close> is a page record with the path \<open>q\<close>, and \<open>q\<close> is in \<open>seen\<close> or
      the path of a page record among the items before it\<close>
  "repeat_from seen items n q =
     (\<exists>pre obj post. items = pre @ (n, obj) # post \<and> page_record obj = Some q
        \<and> (q \<in> seen \<or> (\<exists>x\<in>set pre. page_record (snd x) = Some q)))"

definition repeat_page :: "(nat \<times> json) list \<Rightarrow> nat \<Rightarrow> string \<Rightarrow> bool" where
  \<comment> \<open>the item of line \<open>n\<close> is a repeat occurrence of the page path \<open>q\<close>\<close>
  "repeat_page items n q =
     (\<exists>pre obj post. items = pre @ (n, obj) # post \<and> page_record obj = Some q
        \<and> (\<exists>x\<in>set pre. page_record (snd x) = Some q))"

definition page_tail :: "nat \<Rightarrow> string \<Rightarrow> (string \<times> json) list \<Rightarrow> state \<Rightarrow> error + state" where
  "page_tail ln p d st =
     and_then (py_iter (dict_get d ''internalLinks'' (JArr []))) (\<lambda>links.
     and_then (for_each (check_internal ln p) st links) (\<lambda>st.
     and_then (py_iter (dict_get d ''externalLinks'' (JArr []))) (\<lambda>links.
     and_then (for_each (check_external ln p) st links) (\<lambda>st.
     and_then (py_iter (dict_get d ''images'' (JArr []))) (\<lambda>imgs.
     for_each (check_image ln p) st imgs)))))"

definition page_head :: "nat \<Rightarrow> string \<Rightarrow> string \<Rightarrow> state \<Rightarrow> state" where
  "page_head ln p cs st =
     (let st = st\<lparr>page_count := page_count st + 1\<rparr>;
          st = (if \<not> startswith p ''/'' then
                  add_issue st (''Line '' @ show_nat ln @ '': page.path must start with ''
                                @ [CHR 0x22, CHR ''/'', CHR 0x22] @ '' -> '' @ p)
                else st);
          st = (if p \<in> seen_paths st then
                  add_issue st (''Line '' @ show_nat ln @ '': duplicate page.path '' @ p)
                else st);
          st = st\<lparr>seen_paths := insert p (seen_paths st)\<rparr>
      in if lower cs \<notin> {''utf-8'', ''utf8''} then
           add_issue st (''Line '' @ show_nat ln @ '': non-utf8 charset for '' @ p)
         else st)"

definition example_line :: string where
  \<open>example_line = ''{"type": "page", "path": "/a.htm", "meta": {"charset": "utf-8"}}''\<close>

definition example_fields :: "(string \<times> json) list" where
  "example_fields = [(''type'', JStr ''page''), (''path'', JStr ''/a.htm''),
     (''meta'', JObj [(''charset'', JStr ''utf-8'')])]"

definition tagged_line :: string where
  \<open>tagged_line =
     ''{"type": "page", "path": "/a.htm", "meta": {"charset": "utf-8"}, "__error__": "x"}''\<close>

definition tagged_fields :: "(string \<times> json) list" where
  "tagged_fields = [(''type'', JStr ''page''), (''path'', JStr ''/a.htm''),
     (''meta'', JObj [(''charset'', JStr ''utf-8'')]), (''__error__'', JStr ''x'')]"

definition forged_line :: string where
  \<open>forged_line = ''{"__error__": "Line 1: duplicate page.path /a.htm"}''\<close>


definition example_loads :: "string \<Rightarrow> decoded" where
  \<comment> \<open>\<open>json.loads\<close> on the five lines of the examples: three objects, \<open>oops\<close>, and
      \<open>deep_line\<close>, which is the last case\<close>
  "example_loads line =
     (if line = example_line then Value (JObj example_fields)
      else if line = tagged_line then Value (JObj tagged_fields)
      else if line = forged_line
        then Value (JObj [(''__error__'', JStr ''Line 1: duplicate page.path /a.htm'')])
      else if line = ''oops'' then JSONDecodeError ''Expecting value: line 1 column 1 (char 0)''
      else Raise RecursionError)"

definition example_str :: "json \<Rightarrow> string" where
  "example_str v = (case v of JNull \<Rightarrow> ''None'' | JBool b \<Rightarrow> (if b then ''True'' else ''False'')
     | JStr s \<Rightarrow> s | _ \<Rightarrow> ''?'')"

definition is_letter :: "char \<Rightarrow> bool" where
  "is_letter c = (in_range CHR ''a'' CHR ''z'' c \<or> in_range CHR ''A'' CHR ''Z'' c)"

definition has_scheme :: "string \<Rightarrow> bool" where
  "has_scheme h = (let ls = takeWhile is_letter h in ls \<noteq> [] \<and> startswith (drop (length ls) h) '':'')"

definition rule_internal :: "string \<Rightarrow> string \<Rightarrow> bool" where
  "rule_internal site_domain h = (let lh = lower h in
     if h = [] \<or> startswith lh ''mailto:'' \<or> startswith lh ''tel:'' \<or> startswith lh ''javascript:''
     then False
     else if startswith lh ''http://'' \<or> startswith lh ''https://'' \<or> startswith lh ''//''
     then contains lh site_domain
     else startswith h ''#'' \<or> startswith h ''/'' \<or> startswith h ''./'' \<or> startswith h ''../''
          \<or> \<not> has_scheme h)"

definition meta_sources :: "(string \<times> regex \<times> (string \<Rightarrow> string)) list" where
  "meta_sources = [(''charset'', charset_re, lower),
     (''description'', meta_name_re ''description'', strip),
     (''keywords'', meta_name_re ''keywords'', strip),
     (''robots'', meta_name_re ''robots'', strip),
     (''canonical'', canonical_re, strip)]"



(*DEFS-END*)

section \<open>The page assembler\<close>

lemma classify_cases:
  "classify d (a, b) l = (if is_internal d l then (a @ [l], b) else (a, b @ [l]))"
  by (simp add: classify_def is_internal_def Let_def)

lemma foldl_classify:
  "foldl (classify d) (a, b) ls =
     (a @ filter (is_internal d) ls, b @ filter (\<lambda>l. \<not> is_internal d l) ls)"
  by (induction ls arbitrary: a b) (simp_all add: classify_cases)

lemma page_links:
  "internalLinks (make_page_object rp html d) = filter (is_internal d) (extract_links html)"
  "externalLinks (make_page_object rp html d) =
     filter (\<lambda>l. \<not> is_internal d l) (extract_links html)"
  by (simp_all add: make_page_object_def Let_def foldl_classify)

lemma page_images: "images (make_page_object rp html d) = extract_images html"
  by (simp add: make_page_object_def Let_def split: prod.split)

text \<open>
  C4. Every extracted link is in exactly one of \<open>internalLinks\<close> and \<open>externalLinks\<close>:
  as multisets the two containers add up to the extracted links, and no link is in
  both. Each container lists its links in the order of extraction, and \<open>images\<close> is
  the list of extracted images itself.
\<close>

theorem links_partitioned:
  "mset (internalLinks (make_page_object rp html d))
     + mset (externalLinks (make_page_object rp html d)) = mset (extract_links html)
   \<and> set (internalLinks (make_page_object rp html d))
       \<inter> set (externalLinks (make_page_object rp html d)) = {}
   \<and> subseq (internalLinks (make_page_object rp html d)) (extract_links html)
   \<and> subseq (externalLinks (make_page_object rp html d)) (extract_links html)
   \<and> images (make_page_object rp html d) = extract_images html"
  by (auto simp: page_links page_images)

theorem links_partitioned_witness:
  \<open>mset (internalLinks (make_page_object ''a.htm''
       ''<a href="/x">1</a><img src="i.png"><a href="https://other.com">2</a>'' ''stroyglobal.com''))
     + mset (externalLinks (make_page_object ''a.htm''
       ''<a href="/x">1</a><img src="i.png"><a href="https://other.com">2</a>'' ''stroyglobal.com''))
     = mset (extract_links ''<a href="/x">1</a><img src="i.png"><a href="https://other.com">2</a>'')
   \<and> set (internalLinks (make_page_object ''a.htm''
       ''<a href="/x">1</a><img src="i.png"><a href="https://other.com">2</a>'' ''stroyglobal.com''))
       \<inter> set (externalLinks (make_page_object ''a.htm''
       ''<a href="/x">1</a><img src="i.png"><a href="https://other.com">2</a>'' ''stroyglobal.com'')) = {}
   \<and> subseq (internalLinks (make_page_object ''a.htm''
       ''<a href="/x">1</a><img src="i.png"><a href="https://other.com">2</a>'' ''stroyglobal.com''))
       (extract_links ''<a href="/x">1</a><img src="i.png"><a href="https://other.com">2</a>'')
   \<and> subseq (externalLinks (make_page_object ''a.htm''
       ''<a href="/x">1</a><img src="i.png"><a href="https://other.com">2</a>'' ''stroyglobal.com''))
       (extract_links ''<a href="/x">1</a><img src="i.png"><a href="https://other.com">2</a>'')
   \<and> images (make_page_object ''a.htm''
       ''<a href="/x">1</a><img src="i.png"><a href="https://other.com">2</a>'' ''stroyglobal.com'')
       = extract_images ''<a href="/x">1</a><img src="i.png"><a href="https://other.com">2</a>''\<close>
  by (rule links_partitioned)

text \<open>
  C10. The record of a page holds, in \<open>contentHtml\<close>, the text of the file as it was
  read.
\<close>

theorem contentHtml_verbatim:
  "contentHtml (make_page_object rel_path html site_domain) = html"
  by (simp add: make_page_object_def Let_def split: prod.split)

theorem contentHtml_verbatim_witness:
  \<open>contentHtml (make_page_object ''a.htm'' ''<p>x &amp; y</p>'' ''stroyglobal.com'')
     = ''<p>x &amp; y</p>''\<close>
  by (rule contentHtml_verbatim)

section \<open>The validator: duplicate paths, the cap on reported issues, malformed lines\<close>

lemma and_then_simps [simp]:
  "and_then (Inl e) f = Inl e" "and_then (Inr x) f = f x"
  by (simp_all add: and_then_def)

lemma and_then_Inr: "and_then r f = Inr y \<longleftrightarrow> (\<exists>x. r = Inr x \<and> f x = Inr y)"
  by (cases r) simp_all

lemma for_each_append:
  "for_each body st (xs @ ys) =
     (case for_each body st xs of Inl e \<Rightarrow> Inl e | Inr st' \<Rightarrow> for_each body st' ys)"
  by (induction xs arbitrary: st) (simp_all split: sum.splits)

lemma run_from_Nil: "run_from loads S n st [] = Inr st"
  by (simp add: run_from_def)

lemma run_from_Cons:
  "run_from loads S n st (line # f) =
     (if strip line = [] then run_from loads S (n + 1) st f
      else case loads (strip line) of
             Value v \<Rightarrow>
               and_then (check_record S st (n, v)) (\<lambda>st. run_from loads S (n + 1) st f)
           | JSONDecodeError e \<Rightarrow>
               and_then (check_record S st (n, JObj [(''__error__'',
                    JStr (''JSON parse error at line '' @ show_nat n @ '': '' @ e))]))
                 (\<lambda>st. run_from loads S (n + 1) st f)
           | Raise x \<Rightarrow> Inl x)"
  by (simp add: run_from_def Let_def split: decoded.splits sum.splits)


lemma run_from_Inr:
  "run_from loads S n st f = Inr st'
     \<Longrightarrow> for_each (check_record S) st (iter_ndjson loads n f) = Inr st'"
  by (auto simp: run_from_def and_then_Inr split: option.splits)

lemma run_from_malformed:
  assumes "strip line \<noteq> []" "loads (strip line) = JSONDecodeError e"
  shows "run_from loads S n st (line # post) =
     run_from loads S (n + 1) (st\<lparr>issues := issues st @
        [JStr (''JSON parse error at line '' @ show_nat n @ '': '' @ e)]\<rparr>) post"
  using assms by (simp add: run_from_Cons check_record_def)



lemma extends_refl: "extends ln st st"
  by (simp add: extends_def)

lemma extends_trans: "extends ln a b \<Longrightarrow> extends ln b c \<Longrightarrow> extends ln a c"
  by (auto simp: extends_def)

lemma extends_add:
  "c \<noteq> CHR ''d'' \<Longrightarrow> extends ln st (add_issue st (''Line '' @ show_nat ln @ '': '' @ c # rest))"
  by (auto simp: extends_def add_issue_def other_issue_def)

lemma for_each_extends:
  assumes "\<And>st x st'. body st x = Inr st' \<Longrightarrow> extends ln st st'"
  shows "for_each body st xs = Inr st' \<Longrightarrow> extends ln st st'"
proof (induction xs arbitrary: st)
  case Nil
  then show ?case by (simp add: extends_refl)
next
  case (Cons x xs)
  then obtain st1 where 1: "body st x = Inr st1" and 2: "for_each body st1 xs = Inr st'"
    by (auto split: sum.splits)
  from assms[OF 1] Cons.IH[OF 2] show ?case by (rule extends_trans)
qed

lemma check_internal_extends: "check_internal ln p st x = Inr st' \<Longrightarrow> extends ln st st'"
  using extends_add[of "CHR ''e''" ln st "''mpty internal href at '' @ p"]
  by (auto simp: check_internal_def and_then_Inr Let_def extends_refl split: if_splits)

lemma check_external_extends: "check_external ln p st x = Inr st' \<Longrightarrow> extends ln st st'"
  using extends_add[of "CHR ''e''" ln st "''mpty external href at '' @ p"]
  by (auto simp: check_external_def and_then_Inr Let_def extends_refl split: if_splits)

lemma check_image_extends: "check_image ln p st x = Inr st' \<Longrightarrow> extends ln st st'"
proof -
  assume a: "check_image ln p st x = Inr st'"
  then obtain s al where s: "field_strip x ''src'' = Inr s" and al: "field_strip x ''alt'' = Inr al"
    by (auto simp: check_image_def and_then_Inr Let_def)
  define st1 where "st1 = (if s = [] then add_issue st (''Line '' @ show_nat ln @ '': empty image src at '' @ p) else st)"
  have 1: "extends ln st st1"
    using extends_add[of "CHR ''e''" ln st "''mpty image src at '' @ p"]
    by (simp add: st1_def extends_refl)
  have "st' = (if al = [] then add_issue st1 (''Line '' @ show_nat ln @ '': missing alt for image '' @ s @ '' at '' @ p) else st1)"
    using a s al by (auto simp add: check_image_def Let_def st1_def split: if_splits)
  then have 2: "extends ln st1 st'"
    using extends_add[of "CHR ''m''" ln st1 "''issing alt for image '' @ s @ '' at '' @ p"]
    by (simp add: extends_refl)
  from 1 2 show ?thesis by (rule extends_trans)
qed

lemma page_tail_extends:
  assumes "page_tail ln p d st = Inr st'"
  shows "extends ln st st'"
proof -
  from assms obtain l1 s5 where 1: "for_each (check_internal ln p) st l1 = Inr s5"
    and r1: "and_then (py_iter (dict_get d ''externalLinks'' (JArr []))) (\<lambda>links.
     and_then (for_each (check_external ln p) s5 links) (\<lambda>st.
     and_then (py_iter (dict_get d ''images'' (JArr []))) (\<lambda>imgs.
     for_each (check_image ln p) st imgs))) = Inr st'"
    unfolding page_tail_def and_then_Inr by blast
  from r1 obtain l2 s6 where 2: "for_each (check_external ln p) s5 l2 = Inr s6"
    and r2: "and_then (py_iter (dict_get d ''images'' (JArr []))) (\<lambda>imgs.
     for_each (check_image ln p) s6 imgs) = Inr st'"
    unfolding and_then_Inr by blast
  from r2 obtain l3 where 3: "for_each (check_image ln p) s6 l3 = Inr st'"
    unfolding and_then_Inr by blast
  have "extends ln st s5"
    using 1 for_each_extends[of "check_internal ln p" ln] check_internal_extends by blast
  moreover have "extends ln s5 s6"
    using 2 for_each_extends[of "check_external ln p" ln] check_external_extends by blast
  moreover have "extends ln s6 st'"
    using 3 for_each_extends[of "check_image ln p" ln] check_image_extends by blast
  ultimately show ?thesis by (blast intro: extends_trans)
qed

lemma check_page_eq:
  assumes "dict_get d ''path'' (JStr []) = JStr p" "dict_get d ''meta'' (JObj []) = JObj m"
    "dict_get m ''charset'' (JStr []) = JStr cs"
  shows "check_page ln d st = page_tail ln p d (page_head ln p cs st)"
  using assms by (simp add: check_page_def page_tail_def page_head_def Let_def)

lemma check_page_shape:
  assumes "check_page ln d st = Inr st'" "dict_get d ''path'' (JStr []) = JStr p"
  shows "\<exists>cs. page_tail ln p d (page_head ln p cs st) = Inr st'"
proof -
  from assms obtain m where m: "dict_get d ''meta'' (JObj []) = JObj m"
    by (cases "dict_get d ''meta'' (JObj [])") (simp_all add: check_page_def Let_def)
  from assms m obtain cs where cs: "dict_get m ''charset'' (JStr []) = JStr cs"
    by (cases "dict_get m ''charset'' (JStr [])") (simp_all add: check_page_def Let_def)
  from check_page_eq[OF assms(2) m cs] assms(1) show ?thesis by auto
qed

lemma page_head_result:
  "\<exists>a b. issues (page_head ln p cs st) = issues st @ a
       @ (if p \<in> seen_paths st then [JStr (''Line '' @ show_nat ln @ '': duplicate page.path '' @ p)] else [])
       @ b
     \<and> list_all (other_issue ln) a \<and> list_all (other_issue ln) b
     \<and> seen_paths (page_head ln p cs st) = insert p (seen_paths st)
     \<and> page_count (page_head ln p cs st) = page_count st + 1"
proof -
  define st0 where "st0 = st\<lparr>page_count := page_count st + 1\<rparr>"
  define st1 where "st1 = (if \<not> startswith p ''/'' then
      add_issue st0 (''Line '' @ show_nat ln @ '': page.path must start with '' @ [CHR 0x22, CHR ''/'', CHR 0x22] @ '' -> '' @ p)
    else st0)"
  define st2 where "st2 = (if p \<in> seen_paths st1 then
      add_issue st1 (''Line '' @ show_nat ln @ '': duplicate page.path '' @ p) else st1)"
  define st3 where "st3 = st2\<lparr>seen_paths := insert p (seen_paths st2)\<rparr>"
  have h: "page_head ln p cs st = (if lower cs \<notin> {''utf-8'', ''utf8''} then
      add_issue st3 (''Line '' @ show_nat ln @ '': non-utf8 charset for '' @ p) else st3)"
    unfolding page_head_def Let_def st3_def st2_def st1_def st0_def ..
  have e1: "extends ln st0 st1"
    using extends_add[of "CHR ''p''" ln st0]
    by (simp add: st1_def extends_refl)
  have e4: "extends ln st3 (page_head ln p cs st)"
    using extends_add[of "CHR ''n''" ln st3]
    by (simp add: h extends_refl)
  from e1 obtain a where a: "issues st1 = issues st @ a" "list_all (other_issue ln) a"
      "seen_paths st1 = seen_paths st" "page_count st1 = page_count st + 1"
    by (auto simp: extends_def st0_def)
  from e4 obtain b where b: "issues (page_head ln p cs st) = issues st3 @ b" "list_all (other_issue ln) b"
      "seen_paths (page_head ln p cs st) = seen_paths st3" "page_count (page_head ln p cs st) = page_count st3"
    by (auto simp: extends_def)
  have "issues st3 = issues st1 @ (if p \<in> seen_paths st then [JStr (''Line '' @ show_nat ln @ '': duplicate page.path '' @ p)] else [])"
    "seen_paths st3 = insert p (seen_paths st)" "page_count st3 = page_count st1"
    using a by (simp_all add: st3_def st2_def add_issue_def)
  with a b show ?thesis by auto
qed

lemma check_page_result:
  assumes run: "check_page ln d st = Inr st'" and p: "dict_get d ''path'' (JStr []) = JStr p"
  shows "\<exists>a b. issues st' = issues st @ a
             @ (if p \<in> seen_paths st then [JStr (''Line '' @ show_nat ln @ '': duplicate page.path '' @ p)] else [])
             @ b
           \<and> list_all (other_issue ln) a \<and> list_all (other_issue ln) b
           \<and> seen_paths st' = insert p (seen_paths st) \<and> page_count st' = page_count st + 1"
proof -
  from check_page_shape[OF run p] obtain cs where t: "page_tail ln p d (page_head ln p cs st) = Inr st'"
    by blast
  from page_tail_extends[OF t] obtain c where c: "issues st' = issues (page_head ln p cs st) @ c"
     "list_all (other_issue ln) c" "seen_paths st' = seen_paths (page_head ln p cs st)"
     "page_count st' = page_count (page_head ln p cs st)"
    by (auto simp: extends_def)
  from page_head_result[of ln p cs st] obtain a b where
    ab: "issues (page_head ln p cs st) = issues st @ a
       @ (if p \<in> seen_paths st then [JStr (''Line '' @ show_nat ln @ '': duplicate page.path '' @ p)] else [])
       @ b" "list_all (other_issue ln) a" "list_all (other_issue ln) b"
     "seen_paths (page_head ln p cs st) = insert p (seen_paths st)"
     "page_count (page_head ln p cs st) = page_count st + 1"
    by blast
  show ?thesis
    apply (rule exI[of _ a], rule exI[of _ "b @ c"])
    using ab c by simp
qed

lemma digit_chr_digit: "d < 10 \<Longrightarrow> digit_chr d \<in> set ''0123456789''"
  unfolding digit_chr_def by (rule nth_mem) simp

lemma show_nat_digits: "set (show_nat n) \<subseteq> set ''0123456789''"
proof (induction n rule: show_nat.induct)
  case (1 n)
  show ?case
  proof (cases "n < 10")
    case True
    then show ?thesis using digit_chr_digit[of n] by (subst show_nat.simps) simp
  next
    case False
    have "n mod 10 < 10" by simp
    with False 1 digit_chr_digit[of "n mod 10"] show ?thesis
      by (subst show_nat.simps) simp
  qed
qed

lemma show_nat_no_colon: "CHR '':'' \<notin> set (show_nat n)"
  using show_nat_digits[of n] by auto

lemma colon_split:
  assumes "CHR '':'' \<notin> set A" "CHR '':'' \<notin> set B" "A @ CHR '':'' # X = B @ CHR '':'' # Y"
  shows "A = B \<and> X = Y"
proof -
  have "takeWhile (\<lambda>c. c \<noteq> CHR '':'') (A @ CHR '':'' # X) = A"
    using assms(1) by (auto simp add: takeWhile_tail)
  moreover have "takeWhile (\<lambda>c. c \<noteq> CHR '':'') (B @ CHR '':'' # Y) = B"
    using assms(2) by (auto simp add: takeWhile_tail)
  ultimately have "A = B" using assms(3) by simp
  with assms(3) show ?thesis by simp
qed

lemma line_msg_eq:
  "''Line '' @ show_nat a @ '': '' @ X = ''Line '' @ show_nat b @ '': '' @ Y
     \<longleftrightarrow> show_nat a = show_nat b \<and> X = Y"
  using colon_split[OF show_nat_no_colon show_nat_no_colon, of a "CHR '' '' # X" b "CHR '' '' # Y"]
  by auto

lemma other_issue_not_dup: "other_issue ln x \<Longrightarrow> x \<noteq> dup_issue n q"
  using line_msg_eq[of ln _ n "''duplicate page.path '' @ q"]
  by (auto simp: other_issue_def dup_issue_def)

lemma show_nat_nonempty: "show_nat n \<noteq> []"
  by (subst show_nat.simps) simp

lemma digit_chr_inj: "a < 10 \<Longrightarrow> b < 10 \<Longrightarrow> digit_chr a = digit_chr b \<Longrightarrow> a = b"
  unfolding digit_chr_def
  by (subst (asm) nth_eq_iff_index_eq) simp_all

lemma show_nat_inj: "show_nat a = show_nat b \<Longrightarrow> a = b"
proof (induction a arbitrary: b rule: show_nat.induct)
  case (1 a)
  show ?case
  proof (cases "a < 10")
    case True
    show ?thesis
    proof (cases "b < 10")
      case b: True
      with True 1(2) show ?thesis
        by (simp add: show_nat.simps[of a] show_nat.simps[of b] digit_chr_inj)
    next
      case False
      with True 1(2) show_nat_nonempty[of "b div 10"] show ?thesis
        by (simp add: show_nat.simps[of a] show_nat.simps[of b] Cons_eq_append_conv)
    qed
  next
    case False
    show ?thesis
    proof (cases "b < 10")
      case True
      with False 1(2) show_nat_nonempty[of "a div 10"] show ?thesis
        by (simp add: show_nat.simps[of a] show_nat.simps[of b] append_eq_Cons_conv)
    next
      case b: False
      with False 1(2) have e: "show_nat (a div 10) = show_nat (b div 10)"
        and d: "digit_chr (a mod 10) = digit_chr (b mod 10)"
        by (simp_all add: show_nat.simps[of a] show_nat.simps[of b])
      from 1(1)[OF False e] have "a div 10 = b div 10" .
      moreover from d have "a mod 10 = b mod 10" by (intro digit_chr_inj) simp_all
      ultimately show ?thesis by (metis div_mult_mod_eq)
    qed
  qed
qed

lemma dup_issue_inj: "dup_issue n q = dup_issue ln p \<Longrightarrow> n = ln \<and> q = p"
  using line_msg_eq[of n "''duplicate page.path '' @ q" ln "''duplicate page.path '' @ p"]
  by (auto simp: dup_issue_def dest: show_nat_inj)

lemma not_in_others: "list_all (other_issue ln) a \<Longrightarrow> dup_issue n q \<notin> set a"
  by (metis list_all_iff other_issue_not_dup)

lemma check_record_step:
  assumes "check_record S st item = Inr st'"
  shows "seen_paths st' = seen_paths st \<union> set (page_path_of item)
         \<and> (\<exists>new. issues st' = issues st @ new)"
proof -
  obtain ln obj where item: "item = (ln, obj)" by (cases item)
  from assms item obtain d where d: "obj = JObj d"
    by (cases obj) (auto simp: check_record_def split: if_splits)
  show ?thesis
  proof (cases "map_of d ''__error__''")
    case (Some e)
    with assms item d show ?thesis
      by (auto simp: check_record_def page_path_of_def)
  next
    case None
    show ?thesis
    proof (cases "dict_get d ''type'' JNull = JStr ''page''")
      case False
      with assms item d None show ?thesis
        by (auto simp: check_record_def page_path_of_def Let_def add_issue_def split: if_splits)
    next
      case True
      with assms item d None have cp: "check_page ln d st = Inr st'"
        by (simp add: check_record_def)
      then obtain p where p: "dict_get d ''path'' (JStr []) = JStr p"
        by (cases "dict_get d ''path'' (JStr [])") (simp_all add: check_page_def Let_def)
      from check_page_result[OF cp p] obtain a b where
        "issues st' = issues st @ a @ (if p \<in> seen_paths st then [JStr (''Line '' @ show_nat ln @ '': duplicate page.path '' @ p)] else []) @ b"
        "seen_paths st' = insert p (seen_paths st)"
        by blast
      moreover have "set (page_path_of item) = {p}"
        using item d None True p by (simp add: page_path_of_def)
      ultimately show ?thesis by auto
    qed
  qed
qed

lemma page_paths_Cons: "page_paths (x # xs) = set (page_path_of x) \<union> page_paths xs"
  by (simp add: page_paths_def)

lemma for_each_check_record:
  "for_each (check_record S) st xs = Inr st' \<Longrightarrow>
     seen_paths st' = seen_paths st \<union> page_paths xs \<and> (\<exists>new. issues st' = issues st @ new)"
proof (induction xs arbitrary: st)
  case Nil
  then show ?case by (simp add: page_paths_def)
next
  case (Cons x xs)
  then obtain st1 where 1: "check_record S st x = Inr st1"
    and 2: "for_each (check_record S) st1 xs = Inr st'"
    by (auto split: sum.splits)
  from check_record_step[OF 1] Cons.IH[OF 2] show ?case
    by (auto simp: page_paths_Cons)
qed

lemma check_record_plain:
  assumes run: "check_record S st (ln, JObj d) = Inr st'" and plain: "map_of d ''__error__'' = None"
  shows "\<exists>new. issues st' = issues st @ new
           \<and> seen_paths st' = seen_paths st \<union> set_option (page_record (JObj d))
           \<and> (\<forall>n q. count_list new (dup_issue n q) =
                 (if n = ln \<and> page_record (JObj d) = Some q \<and> q \<in> seen_paths st then 1 else 0))"
proof (cases "dict_get d ''type'' JNull = JStr ''page''")
  case True
  with run plain have cp: "check_page ln d st = Inr st'"
    by (simp add: check_record_def)
  then obtain p where p: "dict_get d ''path'' (JStr []) = JStr p"
    by (cases "dict_get d ''path'' (JStr [])") (simp_all add: check_page_def Let_def)
  have pr: "page_record (JObj d) = Some p"
    using True p by (simp add: page_record_def)
  from check_page_result[OF cp p] obtain a b where
    ab: "issues st' = issues st @ a @ (if p \<in> seen_paths st then [dup_issue ln p] else []) @ b"
      "list_all (other_issue ln) a" "list_all (other_issue ln) b"
      "seen_paths st' = insert p (seen_paths st)"
    unfolding dup_issue_def by blast
  define new where "new = a @ (if p \<in> seen_paths st then [dup_issue ln p] else []) @ b"
  have cnt: "count_list new (dup_issue n q) =
      (if n = ln \<and> page_record (JObj d) = Some q \<and> q \<in> seen_paths st then 1 else 0)" for n q
  proof -
    have a0: "count_list a (dup_issue n q) = 0"
      using not_in_others[OF ab(2), of n q] by (simp add: count_list_0_iff)
    have b0: "count_list b (dup_issue n q) = 0"
      using not_in_others[OF ab(3), of n q] by (simp add: count_list_0_iff)
    have e: "dup_issue ln p = dup_issue n q \<longleftrightarrow> n = ln \<and> q = p"
      using dup_issue_inj[of n q ln p] by auto
    show ?thesis
      by (auto simp add: new_def a0 b0 e pr)
  qed
  show ?thesis
  proof (intro exI conjI allI)
    show "issues st' = issues st @ new" using ab(1) by (simp add: new_def)
    show "seen_paths st' = seen_paths st \<union> set_option (page_record (JObj d))"
      using ab(4) pr by simp
    show "count_list new (dup_issue n q) =
      (if n = ln \<and> page_record (JObj d) = Some q \<and> q \<in> seen_paths st then 1 else 0)" for n q
      by (rule cnt)
  qed
next
  case False
  have pr: "page_record (JObj d) = None"
    using False by (simp add: page_record_def)
  have "extends ln st st'"
    using run plain False
      extends_add[of "CHR ''s''" ln st "''ite.domain missing''"]
      extends_add[of "CHR ''r''" ln st "''obotsTxt.content empty''"]
      extends_add[of "CHR ''s''" ln st "''itemapXml.content empty''"]
      extends_add[of "CHR ''u''" ln st "''nknown type '' @ fmt S (dict_get d ''type'' JNull)"]
    by (auto simp: check_record_def Let_def fmt_def extends_refl split: if_splits)
  then obtain new where new: "issues st' = issues st @ new" "list_all (other_issue ln) new"
    "seen_paths st' = seen_paths st"
    by (auto simp: extends_def)
  have "count_list new (dup_issue n q) = 0" for n q
    using not_in_others[OF new(2), of n q] by (simp add: count_list_0_iff)
  with new pr show ?thesis by auto
qed

lemma check_record_parse_error:
  "check_record S st (ln, JObj [(''__error__'', JStr (''JSON parse error at line '' @ t))])
     = Inr (st\<lparr>issues := issues st @ [JStr (''JSON parse error at line '' @ t)]\<rparr>)"
  by (simp add: check_record_def)

lemma parse_error_not_dup: "JStr (''JSON parse error at line '' @ t) \<noteq> dup_issue n q"
  by (simp add: dup_issue_def)

lemma page_record_parse_error: "page_record (JObj [(''__error__'', e)]) = None"
  by (simp add: page_record_def dict_get_def)

lemma repeat_from_Cons:
  "repeat_from seen ((k, obj) # items) n q \<longleftrightarrow>
     (n = k \<and> page_record obj = Some q \<and> q \<in> seen)
     \<or> repeat_from (seen \<union> set_option (page_record obj)) items n q"
proof
  assume "repeat_from seen ((k, obj) # items) n q"
  then obtain pre ob post where s: "(k, obj) # items = pre @ (n, ob) # post"
    and pr: "page_record ob = Some q"
    and e: "q \<in> seen \<or> (\<exists>x\<in>set pre. page_record (snd x) = Some q)"
    unfolding repeat_from_def by blast
  show "(n = k \<and> page_record obj = Some q \<and> q \<in> seen)
     \<or> repeat_from (seen \<union> set_option (page_record obj)) items n q"
  proof (cases pre)
    case Nil
    with s pr e show ?thesis by simp
  next
    case (Cons y ys)
    with s have y: "y = (k, obj)" and i: "items = ys @ (n, ob) # post" by simp_all
    from e Cons y have "q \<in> seen \<union> set_option (page_record obj)
        \<or> (\<exists>x\<in>set ys. page_record (snd x) = Some q)"
      by auto
    with i pr have "repeat_from (seen \<union> set_option (page_record obj)) items n q"
      unfolding repeat_from_def by blast
    then show ?thesis by simp
  qed
next
  assume a: "(n = k \<and> page_record obj = Some q \<and> q \<in> seen)
     \<or> repeat_from (seen \<union> set_option (page_record obj)) items n q"
  show "repeat_from seen ((k, obj) # items) n q"
  proof (cases "n = k \<and> page_record obj = Some q \<and> q \<in> seen")
    case True
    then have "(k, obj) # items = [] @ (n, obj) # items \<and> page_record obj = Some q \<and> q \<in> seen"
      by simp
    then show ?thesis unfolding repeat_from_def by blast
  next
    case False
    with a obtain pre ob post where i: "items = pre @ (n, ob) # post"
      and pr: "page_record ob = Some q"
      and e: "q \<in> seen \<union> set_option (page_record obj)
                \<or> (\<exists>x\<in>set pre. page_record (snd x) = Some q)"
      unfolding repeat_from_def by blast
    from i have "(k, obj) # items = ((k, obj) # pre) @ (n, ob) # post" by simp
    moreover from e have "q \<in> seen \<or> (\<exists>x\<in>set ((k, obj) # pre). page_record (snd x) = Some q)"
      by auto
    ultimately show ?thesis using pr unfolding repeat_from_def by blast
  qed
qed

lemma iter_ndjson_lines: "x \<in> set (iter_ndjson loads k f) \<Longrightarrow> k \<le> fst x"
proof (induction f arbitrary: k)
  case Nil
  then show ?case by simp
next
  case (Cons line f)
  then show ?case
    by (fastforce simp: Let_def split: if_splits decoded.splits dest: Suc_leD)
qed

lemma repeat_from_later:
  assumes "repeat_from seen (iter_ndjson loads (Suc k) f) n q"
  shows "n \<noteq> k"
proof -
  from assms obtain pre ob post where "iter_ndjson loads (Suc k) f = pre @ (n, ob) # post"
    unfolding repeat_from_def by blast
  then have "(n, ob) \<in> set (iter_ndjson loads (Suc k) f)" by simp
  from iter_ndjson_lines[OF this] show ?thesis by simp
qed

lemma run_from_dups:
  assumes "run_from loads S k st f = Inr st'"
    and "\<forall>line\<in>set f. \<forall>d. loads (strip line) = Value (JObj d) \<longrightarrow> map_of d ''__error__'' = None"
  shows "\<exists>new. issues st' = issues st @ new
           \<and> (\<forall>n q. count_list new (dup_issue n q) =
                 (if repeat_from (seen_paths st) (iter_ndjson loads k f) n q then 1 else 0))"
  using assms
proof (induction f arbitrary: k st)
  case Nil
  then show ?case by (simp add: run_from_Nil repeat_from_def)
next
  case (Cons line f)
  from Cons.prems(2) have plain: "\<forall>line\<in>set f. \<forall>d. loads (strip line) = Value (JObj d)
      \<longrightarrow> map_of d ''__error__'' = None"
    by simp
  show ?case
  proof (cases "strip line = []")
    case True
    with Cons.prems(1) have "run_from loads S (Suc k) st f = Inr st'"
      by (simp add: run_from_Cons)
    from Cons.IH[OF this plain] True show ?thesis by (simp add: Let_def)
  next
    case False
    show ?thesis
    proof (cases "loads (strip line)")
      case (Raise x)
      with False Cons.prems(1) show ?thesis by (simp add: run_from_Cons)
    next
      case (JSONDecodeError e)
      define msg where "msg = JStr (''JSON parse error at line '' @ show_nat k @ '': '' @ e)"
      define st1 where "st1 = st\<lparr>issues := issues st @ [msg]\<rparr>"
      from False JSONDecodeError Cons.prems(1) have r: "run_from loads S (Suc k) st1 f = Inr st'"
        by (simp add: run_from_Cons check_record_def st1_def msg_def)
      from Cons.IH[OF r plain] obtain new where
        new: "issues st' = issues st1 @ new"
          "\<And>n q. count_list new (dup_issue n q) =
             (if repeat_from (seen_paths st1) (iter_ndjson loads (Suc k) f) n q then 1 else 0)"
        by blast
      have items: "iter_ndjson loads k (line # f)
          = (k, JObj [(''__error__'', msg)]) # iter_ndjson loads (Suc k) f"
        using False JSONDecodeError by (simp add: Let_def msg_def)
      have nd: "msg \<noteq> dup_issue n q" for n q
        unfolding msg_def by (rule parse_error_not_dup)
      show ?thesis
      proof (intro exI conjI allI)
        show "issues st' = issues st @ (msg # new)" using new(1) by (simp add: st1_def)
        show "count_list (msg # new) (dup_issue n q) =
           (if repeat_from (seen_paths st) (iter_ndjson loads k (line # f)) n q then 1 else 0)" for n q
          unfolding items using new(2)[of n q] nd[of n q]
          by (simp add: repeat_from_Cons page_record_parse_error st1_def)
      qed
    next
      case (Value v)
      with False Cons.prems(1) obtain st1 where c: "check_record S st (k, v) = Inr st1"
        and r: "run_from loads S (Suc k) st1 f = Inr st'"
        by (auto simp: run_from_Cons and_then_Inr)
      from c obtain d where d: "v = JObj d"
        by (cases v) (auto simp: check_record_def split: if_splits)
      from Cons.prems(2) Value d have pl: "map_of d ''__error__'' = None" by simp
      from check_record_plain[OF c[unfolded d] pl] obtain new1 where
        n1: "issues st1 = issues st @ new1"
          "seen_paths st1 = seen_paths st \<union> set_option (page_record v)"
          "\<And>n q. count_list new1 (dup_issue n q) =
             (if n = k \<and> page_record v = Some q \<and> q \<in> seen_paths st then 1 else 0)"
        unfolding d by blast
      from Cons.IH[OF r plain] obtain new2 where
        n2: "issues st' = issues st1 @ new2"
          "\<And>n q. count_list new2 (dup_issue n q) =
             (if repeat_from (seen_paths st1) (iter_ndjson loads (Suc k) f) n q then 1 else 0)"
        by blast
      have items: "iter_ndjson loads k (line # f) = (k, v) # iter_ndjson loads (Suc k) f"
        using False Value by (simp add: Let_def)
      show ?thesis
      proof (intro exI conjI allI)
        show "issues st' = issues st @ (new1 @ new2)" using n1(1) n2(1) by simp
        show "count_list (new1 @ new2) (dup_issue n q) =
           (if repeat_from (seen_paths st) (iter_ndjson loads k (line # f)) n q then 1 else 0)" for n q
          unfolding items
          using n1(3)[of n q] n2(2)[of n q]
            repeat_from_later[of "seen_paths st1" loads k f n q]
          by (auto simp add: repeat_from_Cons n1(2))
      qed
    qed
  qed
qed

text \<open>
  C5, as amended. Take a stream none of whose lines decodes to an object with a key
  \<open>__error__\<close>, and a run that finishes. The duplicate-path issue that names the line
  \<open>n\<close> and the path \<open>q\<close> is in the list of issues exactly once when the record of line
  \<open>n\<close> is a page record with the path \<open>q\<close> and a page record on an earlier line has that
  path, and it is not in the list otherwise: every repeat occurrence is flagged once,
  on its own line, and a first occurrence is never flagged.
\<close>

theorem duplicate_path_flagged:
  assumes fin: "run loads S f = Inr final"
    and plain: "\<forall>line\<in>set f. \<forall>d. loads (strip line) = Value (JObj d)
                  \<longrightarrow> map_of d ''__error__'' = None"
  shows "count_list (issues final) (dup_issue n q) =
           (if repeat_page (iter_ndjson loads 1 f) n q then 1 else 0)"
proof -
  from run_from_dups[OF fin[unfolded run_def] plain] obtain new where
    "issues final = issues init @ new"
    "\<And>n q. count_list new (dup_issue n q) =
       (if repeat_from (seen_paths init) (iter_ndjson loads 1 f) n q then 1 else 0)"
    by auto
  then show ?thesis
    by (simp add: init_def repeat_from_def repeat_page_def)
qed

lemma run_from_replicate_malformed:
  assumes "strip line \<noteq> []" "loads (strip line) = JSONDecodeError e"
  shows "run_from loads S k st (replicate n line) =
     Inr (st\<lparr>issues := issues st @
        map (\<lambda>i. JStr (''JSON parse error at line '' @ show_nat i @ '': '' @ e)) [k..<k + n]\<rparr>)"
proof (induction n arbitrary: k st)
  case 0
  then show ?case by (simp add: run_from_def)
next
  case (Suc n)
  have "[k..<k + Suc n] = k # [Suc k..<Suc k + n]"
    by (simp add: upt_rec)
  then show ?case
    using Suc[of "Suc k"] assms run_from_malformed[of line loads e S k st "replicate n line"]
    by simp
qed

text \<open>
  C6. When the run finishes, the report lists the first 200 issues (so at most 200),
  and \<open>issuesCount\<close> is the length of the whole list of issues. That list is never
  cut: the issues recorded after any part of the stream are a prefix of it.
\<close>

theorem issues_capped:
  assumes "run loads S f = Inr st"
  shows "\<exists>out. main loads S f = Inr out
           \<and> issues_out out = take 200 (issues st)
           \<and> length (issues_out out) \<le> 200
           \<and> issuesCount (summary out) = length (issues st)
           \<and> (\<forall>pre post st1. iter_ndjson loads 1 f = pre @ post
                  \<and> for_each (check_record S) init pre = Inr st1
                \<longrightarrow> prefix (issues st1) (issues st))"
proof -
  have "prefix (issues st1) (issues st)"
    if "iter_ndjson loads 1 f = pre @ post" "for_each (check_record S) init pre = Inr st1"
    for pre post st1
  proof -
    from assms have "for_each (check_record S) init (iter_ndjson loads 1 f) = Inr st"
      unfolding run_def by (rule run_from_Inr)
    with that have "for_each (check_record S) st1 post = Inr st"
      by (simp add: for_each_append)
    from for_each_check_record[OF this] show ?thesis by (auto simp: prefix_def)
  qed
  then show ?thesis using assms by (simp add: main_def)
qed


theorem duplicate_path_flagged_witness:
  "run example_loads example_str [example_line, example_line]
     = Inr \<lparr>issues = [dup_issue 2 ''/a.htm''], seen_paths = {''/a.htm''}, page_count = 2\<rparr>
   \<and> iter_ndjson example_loads 1 [example_line, example_line]
     = [(1, JObj example_fields), (2, JObj example_fields)]
   \<and> page_record (JObj example_fields) = Some ''/a.htm''
   \<and> count_list (issues \<lparr>issues = [dup_issue 2 ''/a.htm''], seen_paths = {''/a.htm''},
                          page_count = 2\<rparr>) (dup_issue 2 ''/a.htm'')
     = (if repeat_page (iter_ndjson example_loads 1 [example_line, example_line]) 2 ''/a.htm''
        then 1 else 0)
   \<and> repeat_page (iter_ndjson example_loads 1 [example_line, example_line]) 2 ''/a.htm''
   \<and> count_list (issues \<lparr>issues = [dup_issue 2 ''/a.htm''], seen_paths = {''/a.htm''},
                          page_count = 2\<rparr>) (dup_issue 1 ''/a.htm'')
     = (if repeat_page (iter_ndjson example_loads 1 [example_line, example_line]) 1 ''/a.htm''
        then 1 else 0)
   \<and> \<not> repeat_page (iter_ndjson example_loads 1 [example_line, example_line]) 1 ''/a.htm''"
proof -
  have s: "strip example_line = example_line" by code_simp
  have l: "example_loads example_line = Value (JObj example_fields)"
    by (simp add: example_loads_def)
  have k: "map_of example_fields ''__error__'' = None" by code_simp
  have a: "run example_loads example_str [example_line, example_line]
     = Inr \<lparr>issues = [dup_issue 2 ''/a.htm''], seen_paths = {''/a.htm''}, page_count = 2\<rparr>"
    by code_simp
  have b: "iter_ndjson example_loads 1 [example_line, example_line]
     = [(1, JObj example_fields), (2, JObj example_fields)]" by code_simp
  have c: "page_record (JObj example_fields) = Some ''/a.htm''" by code_simp
  have p: "\<forall>line\<in>set [example_line, example_line]. \<forall>d.
      example_loads (strip line) = Value (JObj d) \<longrightarrow> map_of d ''__error__'' = None"
    by (simp add: s l k)
  note d2 = duplicate_path_flagged[OF a p, of 2 "''/a.htm''"]
  note d1 = duplicate_path_flagged[OF a p, of 1 "''/a.htm''"]
  have ne: "dup_issue 2 ''/a.htm'' \<noteq> dup_issue 1 ''/a.htm''"
    using dup_issue_inj[of 2 "''/a.htm''" 1 "''/a.htm''"] by auto
  have r2: "repeat_page (iter_ndjson example_loads 1 [example_line, example_line]) 2 ''/a.htm''"
    using d2 by (simp split: if_splits)
  have r1: "\<not> repeat_page (iter_ndjson example_loads 1 [example_line, example_line]) 1 ''/a.htm''"
    using d1 ne by (simp split: if_splits)
  show ?thesis by (intro conjI a b c d2 r2 d1 r1)
qed

text \<open>
  C5 as it is stated fails on a stream in which an object has a key \<open>__error__\<close>, for
  \<open>main\<close> takes such an object for a line that did not parse and appends what the key
  holds: a second page record with the path \<open>/a.htm\<close> that carries the key is not
  flagged, and after two plain page records with that path an object with the key
  adds a second duplicate-path issue, which names the first occurrence.
\<close>

theorem error_key_counterexample:
  "main example_loads example_str [example_line, tagged_line]
     = Inr \<lparr>summary = \<lparr>pages = 1, uniquePaths = 1, issuesCount = 1\<rparr>, issues_out = [JStr ''x'']\<rparr>
   \<and> page_record (JObj example_fields) = Some ''/a.htm''
   \<and> page_record (JObj tagged_fields) = Some ''/a.htm''
   \<and> main example_loads example_str [example_line, example_line, forged_line]
     = Inr \<lparr>summary = \<lparr>pages = 2, uniquePaths = 1, issuesCount = 2\<rparr>,
            issues_out = [dup_issue 2 ''/a.htm'', dup_issue 1 ''/a.htm'']\<rparr>"
  by code_simp


theorem issues_capped_witness:
  "run example_loads example_str (replicate 201 ''oops'')
     = Inr (init\<lparr>issues := issues init @ map (\<lambda>i. JStr (''JSON parse error at line '' @ show_nat i
              @ '': '' @ ''Expecting value: line 1 column 1 (char 0)'')) [1..<1 + 201]\<rparr>)
   \<and> length (issues (init\<lparr>issues := issues init @ map (\<lambda>i. JStr (''JSON parse error at line ''
              @ show_nat i @ '': '' @ ''Expecting value: line 1 column 1 (char 0)'')) [1..<1 + 201]\<rparr>))
       = 201
   \<and> (\<exists>out. main example_loads example_str (replicate 201 ''oops'') = Inr out
           \<and> issues_out out = take 200 (issues (init\<lparr>issues := issues init @ map (\<lambda>i. JStr
               (''JSON parse error at line '' @ show_nat i @ '': ''
                @ ''Expecting value: line 1 column 1 (char 0)'')) [1..<1 + 201]\<rparr>))
           \<and> length (issues_out out) \<le> 200
           \<and> issuesCount (summary out) = length (issues (init\<lparr>issues := issues init @ map (\<lambda>i. JStr
               (''JSON parse error at line '' @ show_nat i @ '': ''
                @ ''Expecting value: line 1 column 1 (char 0)'')) [1..<1 + 201]\<rparr>))
           \<and> (\<forall>pre post st1. iter_ndjson example_loads 1 (replicate 201 ''oops'') = pre @ post
                  \<and> for_each (check_record example_str) init pre = Inr st1
                \<longrightarrow> prefix (issues st1) (issues (init\<lparr>issues := issues init @ map (\<lambda>i. JStr
               (''JSON parse error at line '' @ show_nat i @ '': ''
                @ ''Expecting value: line 1 column 1 (char 0)'')) [1..<1 + 201]\<rparr>))))"
proof -
  have a: "strip ''oops'' \<noteq> []" by code_simp
  have b: "example_loads (strip ''oops'')
             = JSONDecodeError ''Expecting value: line 1 column 1 (char 0)''"
    by code_simp
  have r: "run example_loads example_str (replicate 201 ''oops'')
     = Inr (init\<lparr>issues := issues init @ map (\<lambda>i. JStr (''JSON parse error at line '' @ show_nat i
              @ '': '' @ ''Expecting value: line 1 column 1 (char 0)'')) [1..<1 + 201]\<rparr>)"
    unfolding run_def
    by (rule run_from_replicate_malformed[of "''oops''" example_loads
          "''Expecting value: line 1 column 1 (char 0)''" example_str 1 init 201, OF a b])
  have l: "length (issues (init\<lparr>issues := issues init @ map (\<lambda>i. JStr (''JSON parse error at line ''
              @ show_nat i @ '': '' @ ''Expecting value: line 1 column 1 (char 0)'')) [1..<1 + 201]\<rparr>))
       = 201" by (simp add: init_def)
  note c = issues_capped[OF r]
  show ?thesis by (intro conjI r l c)
qed

section \<open>The link extractor and the classification of links\<close>

lemma dropWhile_id: "xs = [] \<or> \<not> P (hd xs) \<Longrightarrow> dropWhile P xs = xs"
  by (cases xs) auto

lemma last_dropWhile: "dropWhile P xs \<noteq> [] \<Longrightarrow> last (dropWhile P xs) = last xs"
  by (induction xs) (auto split: if_splits)

lemma strip_strip: "strip (strip s) = strip s"
proof -
  define u where "u = dropWhile is_space s"
  define v where "v = dropWhile is_space (rev u)"
  have u: "u = [] \<or> \<not> is_space (hd u)"
    unfolding u_def using hd_dropWhile[of is_space s] by blast
  have v: "v = [] \<or> \<not> is_space (hd v)"
    unfolding v_def using hd_dropWhile[of is_space "rev u"] by blast
  have "rev v = [] \<or> \<not> is_space (hd (rev v))"
  proof (cases "v = []")
    case True then show ?thesis by simp
  next
    case False
    then have "last v = last (rev u)" unfolding v_def by (rule last_dropWhile)
    moreover from False have "u \<noteq> []" by (auto simp: v_def)
    ultimately have "hd (rev v) = hd u" using False by (simp add: hd_rev last_rev)
    with u \<open>u \<noteq> []\<close> show ?thesis by simp
  qed
  then have 1: "dropWhile is_space (rev v) = rev v" by (rule dropWhile_id)
  from v have 2: "dropWhile is_space v = v" by (rule dropWhile_id)
  have "strip s = rev v" by (simp add: strip_def u_def v_def)
  then show ?thesis by (simp add: strip_def[of "rev v"] 1 2)
qed

lemma foldl_snoc_map: "foldl (\<lambda>acc m. acc @ [f m]) a ms = a @ map f ms"
  by (induction ms arbitrary: a) simp_all

lemma extract_links_map: "extract_links html = map link_of (finditer True anchor_re html)"
  by (simp add: extract_links_def foldl_snoc_map)

lemma extract_images_map: "extract_images html = map img_of (finditer True img_re html)"
  by (simp add: extract_images_def foldl_snoc_map)

lemma href_link_of: "href (link_of m) = strip (group m 1)"
  by (simp add: link_of_def Let_def)

lemma extracted_href_stripped: "l \<in> set (extract_links html) \<Longrightarrow> strip (href l) = href l"
  by (auto simp: extract_links_map href_link_of strip_strip)

lemma star_ex:
  assumes "\<And>x. Q x \<Longrightarrow> x \<noteq> [] \<and> \<not> p (hd x)"
  shows "(\<exists>x\<in>set (star p s). Q x) \<longleftrightarrow> Q (dropWhile p s)"
proof (induction s)
  case Nil
  then show ?case by simp
next
  case (Cons c cs)
  show ?case
  proof (cases "p c")
    case True
    then have "\<not> Q (c # cs)" using assms[of "c # cs"] by auto
    with True Cons show ?thesis by auto
  next
    case False
    then show ?thesis by simp
  qed
qed

lemma match_here_None: "match_here ic r s = None \<longleftrightarrow> matches ic r s = []"
  by (simp add: match_here_def split: list.splits prod.splits)

lemma matches_Seq_empty:
  "matches ic (Seq r1 r2) s = [] \<longleftrightarrow> (\<forall>x\<in>set (matches ic r1 s). matches ic r2 (snd x) = [])"
  by (auto simp: split_def)

lemma startswith_1: "startswith x [c] \<longleftrightarrow> x \<noteq> [] \<and> hd x = c"
  by (cases x) (auto simp: startswith_def)

lemma not_letter_colon: "\<not> is_letter CHR '':''"
  by (simp add: is_letter_def in_range_def)

lemma accepts_letters:
  "accepts False (Class [Rng CHR ''a'' CHR ''z'', Rng CHR ''A'' CHR ''Z'']) = is_letter"
  by (rule ext) (simp add: is_letter_def)

lemma scheme_tail: "matches False (Seq (Seq (One (Lit CHR '':'')) Eps) Eps) x = [] \<longleftrightarrow> \<not> startswith x '':''"
  by (cases x) (auto simp: startswith_def)

lemma scheme_match: "match_here False scheme_re h = None \<longleftrightarrow> \<not> has_scheme h"
proof (cases h)
  case Nil
  then show ?thesis
    by (simp add: match_here_None scheme_re_def cat_def lit_def has_scheme_def)
next
  case (Cons c cs)
  have q: "\<And>x. startswith x '':'' \<Longrightarrow> x \<noteq> [] \<and> \<not> is_letter (hd x)"
    using not_letter_colon by (auto simp: startswith_1)
  have d: "drop (length (takeWhile is_letter cs)) cs = dropWhile is_letter cs"
    by (simp add: dropWhile_eq_drop)
  show ?thesis
  proof (cases "is_letter c")
    case False
    with Cons show ?thesis
      by (simp add: match_here_None scheme_re_def cat_def lit_def has_scheme_def accepts_letters)
  next
    case True
    define T where "T = Seq (Seq (One (Lit CHR '':'')) Eps) Eps"
    have sr: "scheme_re = Seq (Rep1 (Class [Rng CHR ''a'' CHR ''z'', Rng CHR ''A'' CHR ''Z''])) T"
      by (simp add: scheme_re_def cat_def lit_def T_def)
    have tail: "\<And>x. matches False T x = [] \<longleftrightarrow> \<not> startswith x '':''"
      unfolding T_def by (rule scheme_tail)
    have "matches False scheme_re h = [] \<longleftrightarrow>
        (\<forall>x\<in>set (star is_letter cs). \<not> startswith x '':'')"
      unfolding sr using Cons True
      by (simp add: matches_Seq_empty accepts_letters tail del: matches.simps(8))
    also have "\<dots> \<longleftrightarrow> \<not> startswith (dropWhile is_letter cs) '':''"
      using star_ex[of "\<lambda>x. startswith x '':''" is_letter cs, OF q] by blast
    also have "\<dots> \<longleftrightarrow> \<not> has_scheme h"
      using Cons True by (simp add: has_scheme_def d)
    finally show ?thesis by (simp add: match_here_None)
  qed
qed

lemma startswith_any_simps:
  "startswith_any s [a, b, c] \<longleftrightarrow> startswith s a \<or> startswith s b \<or> startswith s c"
  "startswith_any s [a, b, c, e] \<longleftrightarrow> startswith s a \<or> startswith s b \<or> startswith s c \<or> startswith s e"
  by (simp_all add: startswith_any_def)

lemma is_internal_rule: "is_internal d l = rule_internal d (strip (href l))"
  unfolding is_internal_def classify_def rule_internal_def Let_def startswith_any_simps scheme_match
  by simp

text \<open>
  C3. A link that \<open>extract_links\<close> returns is in \<open>internalLinks\<close> exactly when the rule
  of the specification, \<open>rule_internal\<close>, calls its href internal, and in
  \<open>externalLinks\<close> exactly when the rule does not. With the site domain
  \<open>stroyglobal.com\<close> the hrefs \<open>//stroyglobal.com/page\<close> and \<open>#section\<close> are internal,
  \<open>https://other.com\<close> and the empty href are external.
\<close>

theorem links_classified_by_rule:
  assumes "l \<in> set (extract_links html)"
  shows "(l \<in> set (internalLinks (make_page_object rp html d)) \<longleftrightarrow> rule_internal d (href l))
       \<and> (l \<in> set (externalLinks (make_page_object rp html d)) \<longleftrightarrow> \<not> rule_internal d (href l))
       \<and> is_internal ''stroyglobal.com'' \<lparr>href = ''//stroyglobal.com/page'', anchor = a, rel = r, target = t\<rparr>
       \<and> \<not> is_internal ''stroyglobal.com'' \<lparr>href = ''https://other.com'', anchor = a, rel = r, target = t\<rparr>
       \<and> is_internal ''stroyglobal.com'' \<lparr>href = ''#section'', anchor = a, rel = r, target = t\<rparr>
       \<and> \<not> is_internal ''stroyglobal.com'' \<lparr>href = [], anchor = a, rel = r, target = t\<rparr>"
proof -
  have e1: "rule_internal ''stroyglobal.com'' (strip ''//stroyglobal.com/page'')" by code_simp
  have e2: "\<not> rule_internal ''stroyglobal.com'' (strip ''https://other.com'')" by code_simp
  have e3: "rule_internal ''stroyglobal.com'' (strip ''#section'')" by code_simp
  have e4: "\<not> rule_internal ''stroyglobal.com'' (strip [])" by code_simp
  from assms have "is_internal d l = rule_internal d (href l)"
    by (simp add: is_internal_rule extracted_href_stripped)
  with assms e1 e2 e3 e4 show ?thesis
    by (simp add: page_links is_internal_rule)
qed

theorem links_classified_by_rule_witness:
  \<open>\<lparr>href = ''#section'', anchor = ''3'', rel = [], target = []\<rparr>
      \<in> set (extract_links ''<a href="#section">3</a><a href="https://other.com">2</a>'')
   \<and> (\<lparr>href = ''#section'', anchor = ''3'', rel = [], target = []\<rparr>
        \<in> set (internalLinks (make_page_object ''a.htm''
              ''<a href="#section">3</a><a href="https://other.com">2</a>'' ''stroyglobal.com''))
      \<longleftrightarrow> rule_internal ''stroyglobal.com''
            (href \<lparr>href = ''#section'', anchor = ''3'', rel = [], target = []\<rparr>))
   \<and> (\<lparr>href = ''#section'', anchor = ''3'', rel = [], target = []\<rparr>
        \<in> set (externalLinks (make_page_object ''a.htm''
              ''<a href="#section">3</a><a href="https://other.com">2</a>'' ''stroyglobal.com''))
      \<longleftrightarrow> \<not> rule_internal ''stroyglobal.com''
            (href \<lparr>href = ''#section'', anchor = ''3'', rel = [], target = []\<rparr>))
   \<and> is_internal ''stroyglobal.com'' \<lparr>href = ''//stroyglobal.com/page'', anchor = ''1'', rel = [], target = []\<rparr>
   \<and> \<not> is_internal ''stroyglobal.com'' \<lparr>href = ''https://other.com'', anchor = ''1'', rel = [], target = []\<rparr>
   \<and> is_internal ''stroyglobal.com'' \<lparr>href = ''#section'', anchor = ''1'', rel = [], target = []\<rparr>
   \<and> \<not> is_internal ''stroyglobal.com'' \<lparr>href = [], anchor = ''1'', rel = [], target = []\<rparr>
   \<and> rule_internal ''stroyglobal.com'' ''#section''\<close>
proof -
  have a: \<open>\<lparr>href = ''#section'', anchor = ''3'', rel = [], target = []\<rparr>
      \<in> set (extract_links ''<a href="#section">3</a><a href="https://other.com">2</a>'')\<close>
    by code_simp
  have b: "rule_internal ''stroyglobal.com'' ''#section''" by code_simp
  from links_classified_by_rule[OF a, of "''a.htm''" "''stroyglobal.com''" "''1''" "[]" "[]"] a b
  show ?thesis by simp
qed




section \<open>The meta extractor\<close>

lemma search_None: "search ic r s = None \<longleftrightarrow> (\<forall>i\<le>length s. match_here ic r (drop i s) = None)"
proof (induction s)
  case Nil
  then show ?case by simp
next
  case (Cons c cs)
  have "(\<forall>i\<le>length (c # cs). match_here ic r (drop i (c # cs)) = None) \<longleftrightarrow>
        match_here ic r (c # cs) = None \<and> (\<forall>i\<le>length cs. match_here ic r (drop i cs) = None)"
  proof
    assume a: "\<forall>i\<le>length (c # cs). match_here ic r (drop i (c # cs)) = None"
    show "match_here ic r (c # cs) = None \<and> (\<forall>i\<le>length cs. match_here ic r (drop i cs) = None)"
    proof (intro conjI allI impI)
      from a[rule_format, of 0] show "match_here ic r (c # cs) = None" by simp
    next
      fix i assume "i \<le> length cs"
      with a[rule_format, of "Suc i"] show "match_here ic r (drop i cs) = None" by simp
    qed
  next
    assume a: "match_here ic r (c # cs) = None \<and> (\<forall>i\<le>length cs. match_here ic r (drop i cs) = None)"
    show "\<forall>i\<le>length (c # cs). match_here ic r (drop i (c # cs)) = None"
    proof (intro allI impI)
      fix i assume "i \<le> length (c # cs)"
      with a show "match_here ic r (drop i (c # cs)) = None" by (cases i) auto
    qed
  qed
  with Cons show ?case by (simp split: option.splits)
qed

lemma search_first:
  "i \<le> length s \<Longrightarrow> match_here ic r (drop i s) = Some m
     \<Longrightarrow> (\<forall>j<i. match_here ic r (drop j s) = None) \<Longrightarrow> search ic r s = Some m"
proof (induction s arbitrary: i)
  case Nil
  then show ?case by simp
next
  case (Cons c cs)
  show ?case
  proof (cases i)
    case 0
    with Cons.prems show ?thesis by simp
  next
    case (Suc k)
    with Cons.prems have 0: "match_here ic r (c # cs) = None" by (metis drop0 zero_less_Suc)
    have "\<forall>j<k. match_here ic r (drop j cs) = None"
    proof (intro allI impI)
      fix j assume "j < k"
      with Cons.prems(3)[rule_format, of "Suc j"] Suc show "match_here ic r (drop j cs) = None" by simp
    qed
    with Cons.IH[of k] Cons.prems Suc have "search ic r cs = Some m" by simp
    with 0 show ?thesis by simp
  qed
qed

lemma metas_lookup:
  "extract_metas html ''charset'' = map_option (\<lambda>m. lower (group m 1)) (search True charset_re html)"
  "extract_metas html ''description'' = map_option (\<lambda>m. strip (group m 1)) (search True (meta_name_re ''description'') html)"
  "extract_metas html ''keywords'' = map_option (\<lambda>m. strip (group m 1)) (search True (meta_name_re ''keywords'') html)"
  "extract_metas html ''robots'' = map_option (\<lambda>m. strip (group m 1)) (search True (meta_name_re ''robots'') html)"
  "extract_metas html ''canonical'' = map_option (\<lambda>m. strip (group m 1)) (search True canonical_re html)"
  by (simp_all add: extract_metas_def Let_def split: option.splits)

lemma metas_other:
  "k \<notin> {''charset'', ''description'', ''keywords'', ''robots'', ''canonical''} \<Longrightarrow> extract_metas html k = None"
  by (simp add: extract_metas_def Let_def split: option.splits)

lemma metas_source:
  assumes "(k, r, f) \<in> set meta_sources"
  shows "extract_metas html k = map_option (\<lambda>m. f (group m 1)) (search True r html)"
  using assms unfolding meta_sources_def by (auto simp: metas_lookup)

text \<open>
  C8. \<open>meta_sources\<close> lists the recognized keys, each with its pattern and with what is
  done to the captured value (the charset is lower-cased). For such a key the mapping
  has no entry exactly when the pattern matches at no position of the document;
  when it matches somewhere, the value is taken from the match at the first position
  that has one, whatever matches further on. No other key has an entry. (The mapping
  is a function of the key: one value at most for each.)
\<close>

theorem meta_first_match_wins:
  assumes "(k, r, f) \<in> set meta_sources"
  shows "(extract_metas html k = None
           \<longleftrightarrow> (\<forall>i\<le>length html. match_here True r (drop i html) = None))
       \<and> (\<forall>i m. i \<le> length html \<and> match_here True r (drop i html) = Some m
                 \<and> (\<forall>j<i. match_here True r (drop j html) = None)
              \<longrightarrow> extract_metas html k = Some (f (group m 1)))
       \<and> (\<forall>k'. k' \<notin> fst ` set meta_sources \<longrightarrow> extract_metas html k' = None)"
proof (intro conjI allI impI)
  show "extract_metas html k = None \<longleftrightarrow> (\<forall>i\<le>length html. match_here True r (drop i html) = None)"
    by (simp add: metas_source[OF assms] search_None)
next
  fix i m
  assume "i \<le> length html \<and> match_here True r (drop i html) = Some m
          \<and> (\<forall>j<i. match_here True r (drop j html) = None)"
  then have "search True r html = Some m" using search_first[of i html True r m] by blast
  then show "extract_metas html k = Some (f (group m 1))"
    by (simp add: metas_source[OF assms])
next
  fix k' :: string
  assume "k' \<notin> fst ` set meta_sources"
  then show "extract_metas html k' = None"
    by (intro metas_other) (simp add: meta_sources_def)
qed

theorem meta_first_match_wins_witness:
  \<open>(''robots'', meta_name_re ''robots'', strip) \<in> set meta_sources
   \<and> (0::nat) \<le> length ''<meta name="robots" content="a"><meta name="robots" content="b">''
   \<and> match_here True (meta_name_re ''robots'')
        (drop 0 ''<meta name="robots" content="a"><meta name="robots" content="b">'')
       = Some (''<meta name="robots" content="a"'', [''a''], ''><meta name="robots" content="b">'')
   \<and> extract_metas ''<meta name="robots" content="a"><meta name="robots" content="b">'' ''robots''
       = Some (strip (group (''<meta name="robots" content="a"'', [''a''],
                              ''><meta name="robots" content="b">'') 1))
   \<and> extract_metas ''<meta name="robots" content="a"><meta name="robots" content="b">'' ''robots''
       = Some ''a''
   \<and> extract_metas ''<meta name="robots" content="a"><meta name="robots" content="b">'' ''charset''
       = None\<close>
proof -
  have a: "(''robots'', meta_name_re ''robots'', strip) \<in> set meta_sources"
    by (simp add: meta_sources_def)
  have b: \<open>match_here True (meta_name_re ''robots'')
        (drop 0 ''<meta name="robots" content="a"><meta name="robots" content="b">'')
       = Some (''<meta name="robots" content="a"'', [''a''], ''><meta name="robots" content="b">'')\<close>
    by code_simp
  have c: \<open>extract_metas ''<meta name="robots" content="a"><meta name="robots" content="b">'' ''robots''
       = Some ''a''\<close> by code_simp
  have d: \<open>extract_metas ''<meta name="robots" content="a"><meta name="robots" content="b">'' ''charset''
       = None\<close> by code_simp
  from meta_first_match_wins[OF a, of \<open>''<meta name="robots" content="a"><meta name="robots" content="b">''\<close>]
  have "\<forall>i m. i \<le> length ''<meta name=\"robots\" content=\"a\"><meta name=\"robots\" content=\"b\">''
           \<and> match_here True (meta_name_re ''robots'')
               (drop i ''<meta name=\"robots\" content=\"a\"><meta name=\"robots\" content=\"b\">'') = Some m
           \<and> (\<forall>j<i. match_here True (meta_name_re ''robots'')
               (drop j ''<meta name=\"robots\" content=\"a\"><meta name=\"robots\" content=\"b\">'') = None)
         \<longrightarrow> extract_metas ''<meta name=\"robots\" content=\"a\"><meta name=\"robots\" content=\"b\">'' ''robots''
               = Some (strip (group m 1))"
    by blast
  from this[rule_format, of 0] b
  have e: \<open>extract_metas ''<meta name="robots" content="a"><meta name="robots" content="b">'' ''robots''
       = Some (strip (group (''<meta name="robots" content="a"'', [''a''],
                              ''><meta name="robots" content="b">'') 1))\<close>
    by simp
  show ?thesis by (intro conjI a b c d e) simp
qed

section \<open>The heading extractor\<close>


















end
